theory Spec2Isabelle
  imports Main
begin

section \<open>ecs-exec-cli: the selection workflow of \<^verbatim>\<open>index.ts\<close>\<close>

text \<open>
  The development follows \<^verbatim>\<open>index.ts\<close>, the typed variant of the program
  (\<^verbatim>\<open>index.js\<close> is the untyped variant of the same functions, without the guards
  for absent values).

  JavaScript values that may be \<^verbatim>\<open>undefined\<close> are options, a rejected promise or a
  thrown exception is \<open>Inl\<close> of a sum, the process-wide \<^verbatim>\<open>AWS.config.credentials\<close>
  and the file system are fields of an explicit world that every asynchronous function
  takes and returns, and the answers of the collaborators that are not part of the
  program (the operator at the prompts, the AWS endpoints, the \<^verbatim>\<open>download\<close> package,
  the spawned child) are fields of an environment. Strings are lists of 8-bit
  characters: the model covers strings whose code units are below 256. Console output
  and the spinner are not modelled.
\<close>

subsection \<open>Data\<close>

datatype error = Error string | TypeError string

record credentials =
  accessKeyId :: string
  secretAccessKey :: string

record stsCredentials =
  AccessKeyId :: string
  SecretAccessKey :: string

record mfaDevice =
  SerialNumber :: string

record managedAgent =
  agentName :: "string option"

record container =
  name :: "string option"
  managedAgents :: "managedAgent list option"

record task =
  taskArn :: "string option"
  taskDefinitionArn :: "string option"
  launchType :: "string option"
  enableExecuteCommand :: "bool option"
  containers :: "container list option"

type_synonym exitInfo = "int option \<times> string option"

datatype event =
    Prompted string "string list"
  | ListMFADevices
  | GetSessionToken nat string string
  | ListClusters
  | ListTasks string string
  | DescribeTasks string "string list"
  | Download string string
  | Chmod string string
  | Rmdir string
  | Spawned string "string option list" string string

record world =
  credentials :: "credentials option"
  files :: "string list"
  trace :: "event list"

record env =
  argv_mfa :: "bool option"
  argv_cluster :: "string option"
  argv_test :: "bool option"
  mfaAnswer :: "error + string option"
  pickCluster :: "error + nat"
  pickTask :: "error + nat"
  pickContainer :: "error + nat"
  pickShell :: "error + nat"
  listMFADevicesResp :: "error + mfaDevice list"
  getSessionTokenResp :: "string \<Rightarrow> string \<Rightarrow> error + stsCredentials option"
  listClustersResp :: "error + string list option"
  listTasksResp :: "string \<Rightarrow> error + string list option"
  describeTasksResp :: "string \<Rightarrow> string list \<Rightarrow> error + task list option"
  tempfileResp :: string
  downloadResp :: "string \<Rightarrow> string \<Rightarrow> string list \<Rightarrow> error option \<times> string list"
  spawnResp :: "string \<Rightarrow> string option list \<Rightarrow> error + exitInfo"

subsection \<open>Promises over the world\<close>

type_synonym 'a io = "world \<Rightarrow> (error + 'a) \<times> world"

definition resolve :: "'a \<Rightarrow> 'a io" where
  "resolve x w = (Inr x, w)"

definition reject :: "error \<Rightarrow> 'a io" where
  "reject e w = (Inl e, w)"

definition andThen :: "'a io \<Rightarrow> ('a \<Rightarrow> 'b io) \<Rightarrow> 'b io" where
  "andThen m f w = (case m w of (Inl e, w') \<Rightarrow> (Inl e, w') | (Inr x, w') \<Rightarrow> f x w')"

definition emit :: "event \<Rightarrow> unit io" where
  "emit ev w = (Inr (), w\<lparr>trace := trace w @ [ev]\<rparr>)"

definition settle :: "error + 'a \<Rightarrow> 'a io" where
  "settle r w = (r, w)"

subsection \<open>JavaScript array and string primitives\<close>

text \<open>\<^verbatim>\<open>xs.indexOf(x)\<close>: the first position holding \<open>x\<close>, or \<open>-1\<close>.\<close>

fun indexOf :: "'a list \<Rightarrow> 'a \<Rightarrow> int" where
  "indexOf [] x = -1"
| "indexOf (y # ys) x =
     (if y = x then 0 else (let i = indexOf ys x in if i < 0 then -1 else i + 1))"

text \<open>\<^verbatim>\<open>xs[i]\<close>: \<^verbatim>\<open>undefined\<close> outside the array.\<close>

definition at :: "'a list \<Rightarrow> int \<Rightarrow> 'a option" where
  "at xs i = (if 0 \<le> i \<and> i < int (length xs) then Some (xs ! nat i) else None)"

definition includesElem :: "'a list \<Rightarrow> 'a \<Rightarrow> bool" where
  "includesElem xs x = (0 \<le> indexOf xs x)"

definition isLineTerminator :: "char \<Rightarrow> bool" where
  "isLineTerminator c = (c = CHR 0x0A \<or> c = CHR 0x0D)"

text \<open>
  The match of the regular expression \<^verbatim>\<open>/^(.+)m/\<close> on a string, for a literal \<open>m\<close>
  without line terminators: the greedy \<^verbatim>\<open>.+\<close> takes at least one character, none of
  them a line terminator, and the longest such prefix followed by \<open>m\<close> wins. The result
  is what follows the match.
\<close>

fun afterLastMarker :: "string \<Rightarrow> string \<Rightarrow> string option" where
  "afterLastMarker m [] = None"
| "afterLastMarker m (c # cs) =
     (if isLineTerminator c then None
      else (case afterLastMarker m cs of
              Some r \<Rightarrow> Some r
            | None \<Rightarrow> if take (length m) cs = m then Some (drop (length m) cs) else None))"

text \<open>\<^verbatim>\<open>s.replace(/^(.+)m/, "")\<close>\<close>

definition stripThrough :: "string \<Rightarrow> string \<Rightarrow> string" where
  "stripThrough m s = (case afterLastMarker m s of None \<Rightarrow> s | Some r \<Rightarrow> r)"

definition taskDefFriendlyName :: "string \<Rightarrow> string" where
  "taskDefFriendlyName arn = stripThrough ''task-definition/'' arn"

definition clusterFriendlyName :: "string \<Rightarrow> string" where
  "clusterFriendlyName arn = stripThrough ''cluster/'' arn"

subsection \<open>Prompts\<close>

text \<open>
  A \<^verbatim>\<open>search-list\<close> prompt shows the choices and resolves with the string at the
  position the operator picks; it rejects when the operator's answer is a rejection, and
  the model rejects as well when there is no choice at the position.
\<close>

definition searchList :: "string \<Rightarrow> string list \<Rightarrow> error + nat \<Rightarrow> string io" where
  "searchList nm choices pick =
     andThen (emit (Prompted nm choices)) (\<lambda>_.
       case pick of
         Inl e \<Rightarrow> reject e
       | Inr p \<Rightarrow> if p < length choices then resolve (choices ! p)
                  else reject (Error ''prompt closed without an answer''))"

definition askMFA :: "env \<Rightarrow> string option io" where
  "askMFA env = andThen (emit (Prompted ''mfaCode'' [])) (\<lambda>_. settle (mfaAnswer env))"

text \<open>
  \<^verbatim>\<open>askCluster\<close>: with a truthy hint found among the identifiers, or else among the
  friendly names, the identifier at the position of the first match is returned at once;
  otherwise the answer of the prompt, a friendly name, is returned. (The position of a
  match is inside the array, so the read there is never \<^verbatim>\<open>undefined\<close>.)
\<close>

definition askCluster :: "env \<Rightarrow> string list \<Rightarrow> string io" where
  "askCluster env clusterArns =
     (let clusterNames = map clusterFriendlyName clusterArns in
      case argv_cluster env of
        None \<Rightarrow> searchList ''cluster'' clusterNames (pickCluster env)
      | Some hint \<Rightarrow>
          if hint \<noteq> [] \<and> includesElem clusterArns hint then
            settle (case at clusterArns (indexOf clusterArns hint) of
                      Some c \<Rightarrow> Inr c
                    | None \<Rightarrow> Inl (TypeError ''cluster is undefined''))
          else if hint \<noteq> [] \<and> includesElem clusterNames hint then
            settle (case at clusterArns (indexOf clusterNames hint) of
                      Some c \<Rightarrow> Inr c
                    | None \<Rightarrow> Inl (TypeError ''cluster is undefined''))
          else searchList ''cluster'' clusterNames (pickCluster env))"

text \<open>
  \<^verbatim>\<open>askTasks\<close>: a task with a task-definition reference is rendered as
  \<^verbatim>\<open>`${taskDefFriendlyName(t.taskDefinitionArn)} - (${t.launchType})`\<close>, a task without
  one as \<^verbatim>\<open>undefined\<close>; the falsy entries are filtered out of the choices. The result
  carries the answer and its \<^verbatim>\<open>indexOf\<close> among the choices.
\<close>

definition showString :: "string option \<Rightarrow> string" where
  "showString s = (case s of None \<Rightarrow> ''undefined'' | Some x \<Rightarrow> x)"

definition taskChoice :: "task \<Rightarrow> string option" where
  "taskChoice t =
     (case taskDefinitionArn t of
        None \<Rightarrow> None
      | Some a \<Rightarrow> if a = [] then None
                  else Some (taskDefFriendlyName a @ '' - ('' @ showString (launchType t) @ '')''))"

fun truthyStrings :: "string option list \<Rightarrow> string list" where
  "truthyStrings [] = []"
| "truthyStrings (None # ss) = truthyStrings ss"
| "truthyStrings (Some s # ss) = (if s = [] then truthyStrings ss else s # truthyStrings ss)"

definition taskChoices :: "task list \<Rightarrow> string list" where
  "taskChoices tasks = truthyStrings (map taskChoice tasks)"

definition askTasks :: "env \<Rightarrow> task list \<Rightarrow> (string \<times> int) io" where
  "askTasks env tasks =
     (let choices = taskChoices tasks in
      andThen (searchList ''task'' choices (pickTask env)) (\<lambda>answer.
        resolve (answer, indexOf choices answer)))"

definition askContainers :: "env \<Rightarrow> string list \<Rightarrow> string io" where
  "askContainers env containerNames = searchList ''container'' containerNames (pickContainer env)"

definition askShell :: "env \<Rightarrow> string io" where
  "askShell env = searchList ''shell'' [''/bin/bash'', ''/bin/sh''] (pickShell env)"

subsection \<open>Credential refresh\<close>

text \<open>
  \<^verbatim>\<open>mfaTokens\<close>: every failure inside the \<^verbatim>\<open>try\<close> is caught and rethrown as
  \<^verbatim>\<open>Error("MFA failed")\<close>; on success the process-wide credentials are replaced.
\<close>

definition mfaFailed :: "'a io \<Rightarrow> 'a io" where
  "mfaFailed m w = (case m w of (Inl e, w') \<Rightarrow> (Inl (Error ''MFA failed''), w') | (Inr x, w') \<Rightarrow> (Inr x, w'))"

definition setCredentials :: "credentials \<Rightarrow> unit io" where
  "setCredentials c w = (Inr (), w\<lparr>credentials := Some c\<rparr>)"

definition mfaTokens :: "env \<Rightarrow> string \<Rightarrow> unit io" where
  "mfaTokens env mfaToken =
     mfaFailed
       (andThen (emit ListMFADevices) (\<lambda>_.
        andThen (settle (listMFADevicesResp env)) (\<lambda>devices.
          case devices of
            [] \<Rightarrow> reject (Error ''No MFA devices found'')
          | d # _ \<Rightarrow>
              (let serialNumber = SerialNumber d in
               andThen (emit (GetSessionToken 3600 serialNumber mfaToken)) (\<lambda>_.
               andThen (settle (getSessionTokenResp env serialNumber mfaToken)) (\<lambda>Credentials.
                 case Credentials of
                   None \<Rightarrow> reject (Error ''Credentials not generated'')
                 | Some c \<Rightarrow>
                     setCredentials
                       \<lparr>accessKeyId = AccessKeyId c, secretAccessKey = SecretAccessKey c\<rparr>))))))"

subsection \<open>Resource listing\<close>

definition listClusters :: "env \<Rightarrow> string list option io" where
  "listClusters env = andThen (emit ListClusters) (\<lambda>_. settle (listClustersResp env))"

definition execEnabled :: "task \<Rightarrow> bool" where
  "execEnabled t = (enableExecuteCommand t = Some True)"

definition listTasks :: "env \<Rightarrow> string \<Rightarrow> task list option io" where
  "listTasks env cluster =
     andThen (emit (ListTasks cluster ''RUNNING'')) (\<lambda>_.
     andThen (settle (listTasksResp env cluster)) (\<lambda>taskArns.
       case taskArns of
         None \<Rightarrow> resolve None
       | Some arns \<Rightarrow>
           andThen (emit (DescribeTasks cluster arns)) (\<lambda>_.
           andThen (settle (describeTasksResp env cluster arns)) (\<lambda>tasks.
             case tasks of
               None \<Rightarrow> resolve None
             | Some ts \<Rightarrow> resolve (Some (filter execEnabled ts))))))"

subsection \<open>Container eligibility\<close>

text \<open>\<^verbatim>\<open>ms.find((m) => m.name === "ExecuteCommandAgent")\<close>\<close>

definition isExecuteCommandAgent :: "managedAgent \<Rightarrow> bool" where
  "isExecuteCommandAgent m = (agentName m = Some ''ExecuteCommandAgent'')"

definition hasExecuteCommandAgent :: "container \<Rightarrow> bool" where
  "hasExecuteCommandAgent c =
     (case managedAgents c of
        None \<Rightarrow> False
      | Some ms \<Rightarrow> (case find isExecuteCommandAgent ms of None \<Rightarrow> False | Some m \<Rightarrow> True))"

text \<open>\<^verbatim>\<open>c.name || "container"\<close>\<close>

definition containerName :: "container \<Rightarrow> string" where
  "containerName c =
     (case name c of None \<Rightarrow> ''container'' | Some n \<Rightarrow> if n = [] then ''container'' else n)"

definition findExecuteCommandContainer :: "task \<Rightarrow> string list" where
  "findExecuteCommandContainer t =
     (case containers t of
        None \<Rightarrow> []
      | Some cs \<Rightarrow> map containerName (filter hasExecuteCommandAgent cs))"

subsection \<open>Process launcher\<close>

text \<open>
  \<^verbatim>\<open>spawnAwsScript\<close>: the executor throws before \<^verbatim>\<open>spawn\<close> when there are no
  credentials, which rejects the promise. Otherwise the child is spawned with the two
  keys in its environment; the promise resolves with the arguments of \<^verbatim>\<open>close\<close> and
  rejects on \<^verbatim>\<open>error\<close>.
\<close>

definition spawnAwsScript :: "env \<Rightarrow> string \<Rightarrow> string option list \<Rightarrow> exitInfo io" where
  "spawnAwsScript env cmd args w =
     (case credentials w of
        None \<Rightarrow> reject (Error ''No AWS credentials to run the script'') w
      | Some c \<Rightarrow>
          andThen (emit (Spawned cmd args (accessKeyId c) (secretAccessKey c))) (\<lambda>_.
            settle (spawnResp env cmd args)) w)"

subsection \<open>External validator\<close>

definition testUrl :: string where
  "testUrl = ''https://raw.githubusercontent.com/aws-containers/amazon-ecs-exec-checker/main/check-ecs-exec.sh''"

text \<open>
  \<^verbatim>\<open>download(url, dest)\<close>: the package decides what it leaves on the file system,
  whether it resolves or rejects. It is the only step of \<^verbatim>\<open>testConfig\<close> that creates
  files: the spawned script is taken not to touch the download folder.
\<close>

definition download :: "env \<Rightarrow> string \<Rightarrow> string \<Rightarrow> unit io" where
  "download env url dest w =
     (let w1 = w\<lparr>trace := trace w @ [Download url dest]\<rparr> in
      case downloadResp env url dest (files w1) of
        (Some e, fs) \<Rightarrow> (Inl e, w1\<lparr>files := fs\<rparr>)
      | (None, fs) \<Rightarrow> (Inr (), w1\<lparr>files := fs\<rparr>))"

text \<open>\<^verbatim>\<open>fs.chmodSync(path, mode)\<close> throws when the path does not exist.\<close>

definition chmodSync :: "string \<Rightarrow> string \<Rightarrow> unit io" where
  "chmodSync path mode =
     andThen (emit (Chmod path mode)) (\<lambda>_ w.
       if path \<in> set (files w) then (Inr (), w)
       else (Inl (Error ''ENOENT: no such file or directory''), w))"

definition isUnder :: "string \<Rightarrow> string \<Rightarrow> bool" where
  "isUnder folder p = (p = folder \<or> take (length folder + 1) p = folder @ ''/'')"

text \<open>
  \<^verbatim>\<open>fs.rmdirSync(folder, { recursive: true })\<close>: the folder and all below it go. The
  removal itself is taken to succeed.
\<close>

definition rmdirSync :: "string \<Rightarrow> world \<Rightarrow> world" where
  "rmdirSync folder w =
     w\<lparr>files := filter (\<lambda>p. \<not> isUnder folder p) (files w), trace := trace w @ [Rmdir folder]\<rparr>"

text \<open>
  The \<^verbatim>\<open>finally\<close> block of \<^verbatim>\<open>testConfig\<close>, run with the outcome of the \<^verbatim>\<open>try\<close>
  block and the two variables as they are at that moment.
\<close>

definition cleanup :: "string option \<Rightarrow> string option \<Rightarrow> (error + 'a) \<times> world \<Rightarrow> (error + 'a) \<times> world" where
  "cleanup execFolder execPath out =
     (case out of (r, w) \<Rightarrow>
        (case (execFolder, execPath) of
           (Some folder, Some path) \<Rightarrow>
             if folder \<noteq> [] \<and> path \<noteq> [] \<and> path \<in> set (files w) then (r, rmdirSync folder w)
             else (r, w)
         | _ \<Rightarrow> (r, w)))"

definition testConfig :: "env \<Rightarrow> string \<Rightarrow> string \<Rightarrow> exitInfo io" where
  "testConfig env cluster arn w =
     (let execFolder = tempfileResp env in
      case download env testUrl execFolder w of
        (Inl e, w1) \<Rightarrow> cleanup (Some execFolder) None (Inl e, w1)
      | (Inr _, w1) \<Rightarrow>
          (let execPath = execFolder @ ''/'' @ ''check-ecs-exec.sh'' in
           cleanup (Some execFolder) (Some execPath)
             (andThen (chmodSync execPath ''755'') (\<lambda>_.
                spawnAwsScript env execPath [Some cluster, Some arn]) w1)))"

subsection \<open>The run\<close>

definition execArgs :: "string \<Rightarrow> string \<Rightarrow> string option \<Rightarrow> string \<Rightarrow> string option list" where
  "execArgs cluster arn cName shell =
     [Some ''ecs'', Some ''execute-command'', Some ''--cluster'', Some cluster,
      Some ''--task'', Some arn, Some ''--container'', cName,
      Some ''--interactive'', Some ''--command'', Some ([CHR 0x22] @ shell @ [CHR 0x22])]"

text \<open>Lines 268 to 272 of \<^verbatim>\<open>run\<close>: the container name of the launch.\<close>

definition resolveContainer :: "env \<Rightarrow> task \<Rightarrow> string option io" where
  "resolveContainer env selectedTask =
     (let cs = findExecuteCommandContainer selectedTask in
      if length cs > 1
      then andThen (askContainers env cs) (\<lambda>c. resolve (Some c))
      else resolve (at cs 0))"

text \<open>Lines 261 to 286 of \<^verbatim>\<open>run\<close>: what is done with the selected task.\<close>

definition launchSelected :: "env \<Rightarrow> string \<Rightarrow> task \<Rightarrow> exitInfo io" where
  "launchSelected env cluster selectedTask =
     (case taskArn selectedTask of
        None \<Rightarrow> reject (Error ''Selected task has no ARN'')
      | Some arn \<Rightarrow>
          if arn = [] then reject (Error ''Selected task has no ARN'')
          else
            andThen (if (case argv_test env of None \<Rightarrow> True | Some b \<Rightarrow> b)
                     then andThen (testConfig env cluster arn) (\<lambda>_. resolve ())
                     else resolve ()) (\<lambda>_.
            andThen (resolveContainer env selectedTask) (\<lambda>cName.
            andThen (askShell env) (\<lambda>shell.
              spawnAwsScript env ''aws'' (execArgs cluster arn cName shell)))))"

text \<open>
  Lines 259 and 260 of \<^verbatim>\<open>run\<close>: \<^verbatim>\<open>tasks[res.index]\<close>; reading a field of
  \<^verbatim>\<open>undefined\<close> afterwards is a \<^verbatim>\<open>TypeError\<close>.
\<close>

definition selectTask :: "env \<Rightarrow> task list \<Rightarrow> task io" where
  "selectTask env tasks =
     andThen (askTasks env tasks) (\<lambda>res.
       case at tasks (snd res) of
         None \<Rightarrow> reject (TypeError ''Cannot read properties of undefined (reading taskArn)'')
       | Some selectedTask \<Rightarrow> resolve selectedTask)"

text \<open>Lines 243 to 249 of \<^verbatim>\<open>run\<close>.\<close>

definition mfaStep :: "env \<Rightarrow> unit io" where
  "mfaStep env =
     (if (case argv_mfa env of None \<Rightarrow> True | Some b \<Rightarrow> b)
      then andThen (askMFA env) (\<lambda>mfaCode.
             case mfaCode of
               None \<Rightarrow> resolve ()
             | Some code \<Rightarrow> if code = [] then resolve () else mfaTokens env code)
      else resolve ())"

definition runBody :: "env \<Rightarrow> exitInfo io" where
  "runBody env =
     andThen (mfaStep env) (\<lambda>_.
     andThen (listClusters env) (\<lambda>clusterArns.
       case clusterArns of
         None \<Rightarrow> reject (Error ''No clusters found'')
       | Some arns \<Rightarrow>
           andThen (askCluster env arns) (\<lambda>cluster.
           andThen (listTasks env cluster) (\<lambda>tasks.
             case tasks of
               None \<Rightarrow> reject (Error ''No tasks found in cluster'')
             | Some ts \<Rightarrow>
                 andThen (selectTask env ts) (\<lambda>selectedTask.
                   launchSelected env cluster selectedTask)))))"

text \<open>\<^verbatim>\<open>run\<close> returns 1 from its \<^verbatim>\<open>catch\<close> and \<^verbatim>\<open>undefined\<close> otherwise.\<close>

definition run :: "env \<Rightarrow> world \<Rightarrow> nat option \<times> world" where
  "run env w = (case runBody env w of (Inl e, w') \<Rightarrow> (Some 1, w') | (Inr x, w') \<Rightarrow> (None, w'))"

subsection \<open>Sample inputs\<close>

definition noCredentialsWorld :: world where
  "noCredentialsWorld = \<lparr>credentials = None, files = [], trace = []\<rparr>"

definition ambientWorld :: world where
  "ambientWorld =
     \<lparr>credentials = Some \<lparr>accessKeyId = ''AKIAAMBIENT'', secretAccessKey = ''ambient-secret''\<rparr>,
      files = [], trace = []\<rparr>"

definition appContainers :: "container list" where
  "appContainers =
     [\<lparr>name = Some ''app'', managedAgents = Some [\<lparr>agentName = Some ''ExecuteCommandAgent''\<rparr>]\<rparr>,
      \<lparr>name = Some ''logger'', managedAgents = None\<rparr>,
      \<lparr>name = None, managedAgents = Some [\<lparr>agentName = None\<rparr>, \<lparr>agentName = Some ''ExecuteCommandAgent''\<rparr>]\<rparr>,
      \<lparr>name = Some ''idle'', managedAgents = Some []\<rparr>]"

definition appTask :: task where
  "appTask =
     \<lparr>taskArn = Some ''arn:aws:ecs:us-east-1:123456789012:task/prod/1111'',
      taskDefinitionArn = Some ''arn:aws:ecs:us-east-1:123456789012:task-definition/web:3'',
      launchType = Some ''FARGATE'',
      enableExecuteCommand = Some True,
      containers = Some appContainers\<rparr>"

definition demoEnv :: env where
  "demoEnv =
     \<lparr>argv_mfa = Some True, argv_cluster = Some ''prod'', argv_test = Some True,
      mfaAnswer = Inr (Some ''''),
      pickCluster = Inr 0, pickTask = Inr 0, pickContainer = Inr 1, pickShell = Inr 1,
      listMFADevicesResp =
        Inr [\<lparr>SerialNumber = ''arn:aws:iam::123456789012:mfa/first''\<rparr>,
             \<lparr>SerialNumber = ''arn:aws:iam::123456789012:mfa/second''\<rparr>],
      getSessionTokenResp =
        (\<lambda>serial code.
           if serial = ''arn:aws:iam::123456789012:mfa/first'' \<and> code = ''123456''
           then Inr (Some \<lparr>AccessKeyId = ''ASIASESSION'', SecretAccessKey = ''session-secret''\<rparr>)
           else Inl (Error ''AccessDenied'')),
      listClustersResp = Inr (Some [''arn:aws:ecs:us-east-1:123456789012:cluster/prod'']),
      listTasksResp = (\<lambda>c. Inr (Some [''arn:aws:ecs:us-east-1:123456789012:task/prod/1111''])),
      describeTasksResp = (\<lambda>c arns. Inr (Some [appTask])),
      tempfileResp = ''/tmp/4f2a'',
      downloadResp = (\<lambda>url dest fs. (None, dest # (dest @ ''/check-ecs-exec.sh'') # fs)),
      spawnResp = (\<lambda>cmd args. Inr (Some 0, None))\<rparr>"

definition emptyHintEnv :: env where
  "emptyHintEnv = demoEnv\<lparr>argv_cluster := Some ''''\<rparr>"

definition twinTasks :: "task list" where
  "twinTasks =
     [appTask, appTask\<lparr>taskArn := Some ''arn:aws:ecs:us-east-1:123456789012:task/prod/2222''\<rparr>]"

definition twinEnv :: env where
  "twinEnv = demoEnv\<lparr>describeTasksResp := (\<lambda>c arns. Inr (Some twinTasks)), pickTask := Inr 1\<rparr>"

definition driftTasks :: "task list" where
  "driftTasks =
     [\<lparr>taskArn = Some ''arn:aws:ecs:us-east-1:123456789012:task/prod/0000'',
       taskDefinitionArn = None, launchType = Some ''EC2'',
       enableExecuteCommand = Some True, containers = None\<rparr>,
      appTask]"

definition noAgentTask :: task where
  "noAgentTask = appTask\<lparr>containers := Some [\<lparr>name = Some ''app'', managedAgents = None\<rparr>]\<rparr>"

definition noAgentEnv :: env where
  "noAgentEnv = demoEnv\<lparr>describeTasksResp := (\<lambda>c arns. Inr (Some [noAgentTask]))\<rparr>"

definition partialDownloadEnv :: env where
  "partialDownloadEnv =
     demoEnv\<lparr>downloadResp := (\<lambda>url dest fs. (Some (Error ''ENOSPC: no space left on device''), dest # fs))\<rparr>"

definition renamedDownloadEnv :: env where
  "renamedDownloadEnv =
     demoEnv\<lparr>downloadResp := (\<lambda>url dest fs. (None, dest # (dest @ ''/download'') # fs))\<rparr>"

definition absentTasksEnv :: env where
  "absentTasksEnv = demoEnv\<lparr>listTasksResp := (\<lambda>c. Inr None)\<rparr>"

definition mixedTasks :: "task list" where
  "mixedTasks =
     [appTask\<lparr>enableExecuteCommand := Some False\<rparr>, appTask,
      appTask\<lparr>enableExecuteCommand := None\<rparr>]"

definition codeEnv :: env where
  "codeEnv = demoEnv\<lparr>mfaAnswer := Inr (Some ''123456'')\<rparr>"

subsection \<open>Computations that leave the credential state alone\<close>

text \<open>
  The two calls of the credential refresh, and the computations that keep the
  process-wide credentials and make neither call.
\<close>

definition isMfaEvent :: "event \<Rightarrow> bool" where
  "isMfaEvent ev = (case ev of ListMFADevices \<Rightarrow> True | GetSessionToken _ _ _ \<Rightarrow> True | _ \<Rightarrow> False)"

definition mfaFree :: "'a io \<Rightarrow> bool" where
  "mfaFree m =
     (\<forall>w. credentials (snd (m w)) = credentials w \<and>
          (\<exists>evs. trace (snd (m w)) = trace w @ evs \<and> filter isMfaEvent evs = []))"

definition absentDescribedEnv :: env where
  "absentDescribedEnv = demoEnv\<lparr>describeTasksResp := (\<lambda>c arns. Inr None)\<rparr>"

definition noContainersTask :: task where
  "noContainersTask = appTask\<lparr>containers := None\<rparr>"

definition noContainersEnv :: env where
  "noContainersEnv = demoEnv\<lparr>describeTasksResp := (\<lambda>c arns. Inr (Some [noContainersTask]))\<rparr>"

subsection \<open>Events of the final launch\<close>

text \<open>The spawns of the command \<^verbatim>\<open>aws\<close>, as opposed to the spawn of the downloaded script.\<close>

definition isAwsLaunch :: "event \<Rightarrow> bool" where
  "isAwsLaunch ev = (case ev of Spawned cmd args k s \<Rightarrow> cmd = ''aws'' | _ \<Rightarrow> False)"

section \<open>Properties\<close>

subsection \<open>Basic facts\<close>

lemma searchList_apply:
  "searchList nm choices pick w =
     ((case pick of
         Inl e \<Rightarrow> Inl e
       | Inr p \<Rightarrow> if p < length choices then Inr (choices ! p)
                  else Inl (Error ''prompt closed without an answer'')),
      w\<lparr>trace := trace w @ [Prompted nm choices]\<rparr>)"
  by (simp add: searchList_def andThen_def emit_def resolve_def reject_def split: sum.splits)

lemma spawnAwsScript_with_credentials:
  "credentials w = Some c \<Longrightarrow>
     spawnAwsScript env cmd args w =
       (spawnResp env cmd args,
        w\<lparr>trace := trace w @ [Spawned cmd args (accessKeyId c) (secretAccessKey c)]\<rparr>)"
  by (simp add: spawnAwsScript_def andThen_def emit_def settle_def)

lemma find_agent_iff:
  "(case find isExecuteCommandAgent ms of None \<Rightarrow> False | Some m \<Rightarrow> True) =
     (\<exists>m. m \<in> set ms \<and> agentName m = Some ''ExecuteCommandAgent'')"
  by (induction ms) (auto simp: isExecuteCommandAgent_def)

lemma hasExecuteCommandAgent_iff:
  "hasExecuteCommandAgent =
     (\<lambda>c. \<exists>ms m. managedAgents c = Some ms \<and> m \<in> set ms \<and>
                 agentName m = Some ''ExecuteCommandAgent'')"
proof (rule ext)
  fix c
  show "hasExecuteCommandAgent c =
     (\<exists>ms m. managedAgents c = Some ms \<and> m \<in> set ms \<and> agentName m = Some ''ExecuteCommandAgent'')"
  proof (cases "managedAgents c")
    case None
    then show ?thesis by (simp add: hasExecuteCommandAgent_def)
  next
    case (Some ms)
    then show ?thesis by (simp add: hasExecuteCommandAgent_def find_agent_iff)
  qed
qed

lemma containerName_nonempty: "containerName c \<noteq> []"
  by (simp add: containerName_def split: option.splits)

lemma findExecuteCommandContainer_example:
  "findExecuteCommandContainer appTask = [''app'', ''container''] \<and>
   findExecuteCommandContainer (appTask\<lparr>containers := None\<rparr>) = []"
  by (simp add: findExecuteCommandContainer_def appTask_def appContainers_def hasExecuteCommandAgent_def
      isExecuteCommandAgent_def containerName_def)

lemma indexOf_notin: "x \<notin> set xs \<Longrightarrow> indexOf xs x = -1"
  by (induction xs) (auto simp: Let_def)

lemma indexOf_in:
  "x \<in> set xs \<Longrightarrow>
     0 \<le> indexOf xs x \<and> nat (indexOf xs x) < length xs \<and> xs ! nat (indexOf xs x) = x \<and>
     (\<forall>j < nat (indexOf xs x). xs ! j \<noteq> x)"
proof (induction xs)
  case Nil
  then show ?case by simp
next
  case (Cons y ys)
  show ?case
  proof (cases "y = x")
    case True
    then show ?thesis by simp
  next
    case False
    with Cons.prems have mem: "x \<in> set ys" by simp
    from Cons.IH [OF mem] have ih: "0 \<le> indexOf ys x" "nat (indexOf ys x) < length ys"
      "ys ! nat (indexOf ys x) = x" "\<forall>j < nat (indexOf ys x). ys ! j \<noteq> x"
      by simp_all
    have idx: "indexOf (y # ys) x = indexOf ys x + 1"
      using False ih(1) by (simp add: Let_def)
    have n: "nat (indexOf ys x + 1) = Suc (nat (indexOf ys x))"
      using ih(1) by simp
    show ?thesis
      unfolding idx n using False ih by (auto simp: nth_Cons split: nat.splits)
  qed
qed

lemma includesElem_iff: "includesElem xs x = (x \<in> set xs)"
proof (cases "x \<in> set xs")
  case True
  then show ?thesis using indexOf_in [of x xs] by (simp add: includesElem_def)
next
  case False
  then show ?thesis using indexOf_notin [of x xs] by (simp add: includesElem_def)
qed

lemma at_indexOf:
  "x \<in> set xs \<Longrightarrow> length ys = length xs \<Longrightarrow> at ys (indexOf xs x) = Some (ys ! nat (indexOf xs x))"
proof -
  assume mem: "x \<in> set xs" and len: "length ys = length xs"
  from indexOf_in [OF mem] have "0 \<le> indexOf xs x" and "nat (indexOf xs x) < length xs"
    by simp_all
  then have "0 \<le> indexOf xs x \<and> indexOf xs x < int (length ys)"
    using len by linarith
  then show ?thesis by (simp add: at_def)
qed

lemmas io_defs = resolve_def reject_def andThen_def emit_def settle_def

lemmas step_defs =
  askMFA_def askCluster_def askTasks_def askContainers_def askShell_def searchList_apply
  mfaTokens_def mfaFailed_def setCredentials_def listClusters_def listTasks_def
  findExecuteCommandContainer_def hasExecuteCommandAgent_def isExecuteCommandAgent_def
  containerName_def spawnAwsScript_def download_def chmodSync_def rmdirSync_def cleanup_def
  testConfig_def resolveContainer_def launchSelected_def selectTask_def mfaStep_def
  runBody_def run_def execArgs_def taskChoices_def taskChoice_def showString_def
  taskDefFriendlyName_def clusterFriendlyName_def stripThrough_def isLineTerminator_def
  includesElem_def at_def execEnabled_def isUnder_def testUrl_def

subsection \<open>Process launcher\<close>

text \<open>
  C4: when the process-wide credential state holds no credentials, \<^verbatim>\<open>spawnAwsScript\<close>
  rejects with the error "No AWS credentials to run the script" and leaves the world as
  it was: no child process is spawned (the trace gains no \<open>Spawned\<close> event).
\<close>

theorem spawnAwsScript_no_credentials:
  "credentials w = None \<Longrightarrow>
     spawnAwsScript env cmd args w = (Inl (Error ''No AWS credentials to run the script''), w)"
  by (simp add: spawnAwsScript_def reject_def)

theorem spawnAwsScript_no_credentials_witness:
  "credentials noCredentialsWorld = None \<and>
   spawnAwsScript demoEnv ''aws'' [Some ''ecs''] noCredentialsWorld =
     (Inl (Error ''No AWS credentials to run the script''), noCredentialsWorld) \<and>
   trace noCredentialsWorld = []"
proof -
  have h: "credentials noCredentialsWorld = None" by (simp add: noCredentialsWorld_def)
  show ?thesis
    using h spawnAwsScript_no_credentials [OF h, of demoEnv "''aws''" "[Some ''ecs'']"]
    by (simp add: noCredentialsWorld_def)
qed

text \<open>A run without credentials ends in the \<^verbatim>\<open>catch\<close> and spawns nothing.\<close>

lemma run_no_credentials_example:
  "fst (run demoEnv noCredentialsWorld) = Some 1 \<and>
   filter (\<lambda>ev. case ev of Spawned _ _ _ _ \<Rightarrow> True | _ \<Rightarrow> False)
     (trace (snd (run demoEnv noCredentialsWorld))) = []"
  by (simp add: io_defs step_defs demoEnv_def appTask_def appContainers_def
      noCredentialsWorld_def Let_def)

subsection \<open>Container eligibility\<close>

text \<open>
  C5: \<^verbatim>\<open>findExecuteCommandContainer\<close> keeps exactly the containers whose managed agents
  are present and include at least one agent named "ExecuteCommandAgent" (in their
  order, each rendered by its name), and is the empty list for a task without a
  containers field; it has no failing branch.
\<close>

theorem findExecuteCommandContainer_eligible:
  "findExecuteCommandContainer t =
     (case containers t of
        None \<Rightarrow> []
      | Some cs \<Rightarrow>
          map containerName
            (filter (\<lambda>c. \<exists>ms m. managedAgents c = Some ms \<and> m \<in> set ms \<and>
                            agentName m = Some ''ExecuteCommandAgent'') cs))"
  unfolding findExecuteCommandContainer_def hasExecuteCommandAgent_iff by (rule refl)

subsection \<open>Cluster resolution\<close>

lemma clusterFriendlyName_prod:
  "clusterFriendlyName ''arn:aws:ecs:us-east-1:123456789012:cluster/prod'' = ''prod''"
  by (simp add: clusterFriendlyName_def stripThrough_def isLineTerminator_def)

lemma clusterFriendlyName_bare:
  "clusterFriendlyName ''arn:aws:ecs:us-east-1:123456789012:cluster/'' = ''''"
  by (simp add: clusterFriendlyName_def stripThrough_def isLineTerminator_def)

text \<open>
  C3 (amended): for every non-empty hint that equals an identifier of the cluster list
  or the friendly name of one, \<^verbatim>\<open>askCluster\<close> returns without prompting (the world,
  trace included, is unchanged) the identifier at the first position of the hint among
  the identifiers if it occurs there, and otherwise the identifier at the first
  position whose friendly name is the hint.
\<close>

theorem askCluster_short_circuit:
  assumes hint: "argv_cluster env = Some hint" and truthy: "hint \<noteq> []"
    and known: "hint \<in> set clusterArns \<or> hint \<in> set (map clusterFriendlyName clusterArns)"
  shows "\<exists>i < length clusterArns.
           askCluster env clusterArns w = (Inr (clusterArns ! i), w) \<and>
           (if hint \<in> set clusterArns
            then clusterArns ! i = hint \<and> (\<forall>j < i. clusterArns ! j \<noteq> hint)
            else clusterFriendlyName (clusterArns ! i) = hint \<and>
                 (\<forall>j < i. clusterFriendlyName (clusterArns ! j) \<noteq> hint))"
proof (cases "hint \<in> set clusterArns")
  case True
  let ?i = "nat (indexOf clusterArns hint)"
  from indexOf_in [OF True] have i: "?i < length clusterArns" "clusterArns ! ?i = hint"
    "\<forall>j < ?i. clusterArns ! j \<noteq> hint" by simp_all
  have "askCluster env clusterArns w = (Inr (clusterArns ! ?i), w)"
    using hint truthy True at_indexOf [OF True, of clusterArns]
    by (simp add: askCluster_def includesElem_iff settle_def)
  with i True show ?thesis by auto
next
  case False
  let ?names = "map clusterFriendlyName clusterArns"
  let ?i = "nat (indexOf ?names hint)"
  from False known have mem: "hint \<in> set ?names" by simp
  note raw = indexOf_in [OF mem]
  from raw have i: "?i < length clusterArns" "?names ! ?i = hint" by simp_all
  from raw have first: "\<And>j. j < ?i \<Longrightarrow> ?names ! j \<noteq> hint" by blast
  have run: "askCluster env clusterArns w = (Inr (clusterArns ! ?i), w)"
    using hint truthy False mem at_indexOf [OF mem, of clusterArns]
    by (simp add: askCluster_def includesElem_iff settle_def Let_def)
  have "clusterFriendlyName (clusterArns ! ?i) = hint"
    using i(1,2) by simp
  moreover have "\<forall>j < ?i. clusterFriendlyName (clusterArns ! j) \<noteq> hint"
  proof (intro allI impI)
    fix j assume j: "j < ?i"
    with i(1) have "j < length clusterArns" by simp
    with first [OF j] show "clusterFriendlyName (clusterArns ! j) \<noteq> hint" by simp
  qed
  ultimately show ?thesis using run i(1) False by auto
qed

theorem askCluster_short_circuit_witness:
  "argv_cluster demoEnv = Some ''prod'' \<and> ''prod'' \<noteq> [] \<and>
   ''prod'' \<in> set (map clusterFriendlyName [''arn:aws:ecs:us-east-1:123456789012:cluster/prod'']) \<and>
   askCluster demoEnv [''arn:aws:ecs:us-east-1:123456789012:cluster/prod''] ambientWorld =
     (Inr ''arn:aws:ecs:us-east-1:123456789012:cluster/prod'', ambientWorld)"
proof -
  have h1: "argv_cluster demoEnv = Some ''prod''" by (simp add: demoEnv_def)
  have h2: "''prod'' \<noteq> []" by simp
  have h3: "''prod'' \<in> set [''arn:aws:ecs:us-east-1:123456789012:cluster/prod''] \<or>
    ''prod'' \<in> set (map clusterFriendlyName [''arn:aws:ecs:us-east-1:123456789012:cluster/prod''])"
    by (simp add: clusterFriendlyName_prod)
  from askCluster_short_circuit [OF h1 h2 h3, of ambientWorld]
  have "askCluster demoEnv [''arn:aws:ecs:us-east-1:123456789012:cluster/prod''] ambientWorld =
     (Inr ''arn:aws:ecs:us-east-1:123456789012:cluster/prod'', ambientWorld)"
    by simp
  with h1 h3 show ?thesis by simp
qed

text \<open>
  The empty hint is falsy: it is not looked up, although it is the friendly name of an
  identifier that ends in \<^verbatim>\<open>cluster/\<close>, and the prompt is shown.
\<close>

theorem askCluster_empty_hint_prompts:
  "argv_cluster emptyHintEnv = Some '''' \<and>
   '''' \<in> set (map clusterFriendlyName [''arn:aws:ecs:us-east-1:123456789012:cluster/'']) \<and>
   askCluster emptyHintEnv [''arn:aws:ecs:us-east-1:123456789012:cluster/''] ambientWorld =
     (Inr '''', ambientWorld\<lparr>trace := [Prompted ''cluster'' ['''']]\<rparr>) \<and>
   askCluster emptyHintEnv [''arn:aws:ecs:us-east-1:123456789012:cluster/''] ambientWorld \<noteq>
     (Inr ''arn:aws:ecs:us-east-1:123456789012:cluster/'', ambientWorld)"
  by (simp add: emptyHintEnv_def demoEnv_def askCluster_def clusterFriendlyName_bare
      searchList_apply ambientWorld_def)

subsection \<open>Task resolution\<close>

lemma taskChoices_all_refs:
  "\<forall>t \<in> set tasks. \<exists>a. taskDefinitionArn t = Some a \<and> a \<noteq> [] \<Longrightarrow>
     map taskChoice tasks = map Some (taskChoices tasks)"
proof (induction tasks)
  case Nil
  then show ?case by (simp add: taskChoices_def)
next
  case (Cons t ts)
  from Cons.prems obtain a where a: "taskDefinitionArn t = Some a" "a \<noteq> []" by auto
  from Cons.prems have "\<forall>t \<in> set ts. \<exists>a. taskDefinitionArn t = Some a \<and> a \<noteq> []" by simp
  from Cons.IH [OF this] show ?case
    using a by (simp add: taskChoices_def taskChoice_def)
qed

lemma askTasks_apply:
  "pickTask env = Inr p \<Longrightarrow> p < length (taskChoices tasks) \<Longrightarrow>
     askTasks env tasks w =
       (Inr (taskChoices tasks ! p, indexOf (taskChoices tasks) (taskChoices tasks ! p)),
        w\<lparr>trace := trace w @ [Prompted ''task'' (taskChoices tasks)]\<rparr>)"
  by (simp add: askTasks_def Let_def andThen_def searchList_apply resolve_def)

text \<open>
  C1 (amended): when every task of the list has a task-definition reference and the
  operator picks position \<open>p\<close>, the task that the rest of \<^verbatim>\<open>run\<close> works on and launches
  is the element of the task list at the first position whose display string equals the
  one at \<open>p\<close>; it is the element at \<open>p\<close> itself when no earlier task renders the same
  display string.
\<close>

theorem selectTask_first_match:
  assumes pick: "pickTask env = Inr p" and range: "p < length tasks"
    and refs: "\<forall>t \<in> set tasks. \<exists>a. taskDefinitionArn t = Some a \<and> a \<noteq> []"
  shows "\<exists>i \<le> p.
           taskChoice (tasks ! i) = taskChoice (tasks ! p) \<and>
           (\<forall>j < i. taskChoice (tasks ! j) \<noteq> taskChoice (tasks ! p)) \<and>
           ((\<forall>j < p. taskChoice (tasks ! j) \<noteq> taskChoice (tasks ! p)) \<longrightarrow> i = p) \<and>
           selectTask env tasks w =
             (Inr (tasks ! i), w\<lparr>trace := trace w @ [Prompted ''task'' (taskChoices tasks)]\<rparr>) \<and>
           andThen (selectTask env tasks) (launchSelected env cluster) w =
             launchSelected env cluster (tasks ! i)
               (w\<lparr>trace := trace w @ [Prompted ''task'' (taskChoices tasks)]\<rparr>)"
proof -
  let ?cs = "taskChoices tasks"
  let ?w' = "w\<lparr>trace := trace w @ [Prompted ''task'' ?cs]\<rparr>"
  let ?i = "nat (indexOf ?cs (?cs ! p))"
  have labels: "map taskChoice tasks = map Some ?cs"
    by (rule taskChoices_all_refs [OF refs])
  then have len: "length ?cs = length tasks"
    by (metis length_map)
  have label: "taskChoice (tasks ! k) = Some (?cs ! k)" if "k < length tasks" for k
  proof -
    have "taskChoice (tasks ! k) = map taskChoice tasks ! k" using that by simp
    also have "\<dots> = Some (?cs ! k)" using that len by (simp add: labels)
    finally show ?thesis .
  qed
  have mem: "?cs ! p \<in> set ?cs" using range len by simp
  note raw = indexOf_in [OF mem]
  from raw have i: "?i < length tasks" "?cs ! ?i = ?cs ! p" using len by simp_all
  from raw have first: "\<And>j. j < ?i \<Longrightarrow> ?cs ! j \<noteq> ?cs ! p" by blast
  have le: "?i \<le> p"
  proof (rule ccontr)
    assume "\<not> ?i \<le> p"
    then have "p < ?i" by simp
    from first [OF this] show False by simp
  qed
  have same: "taskChoice (tasks ! ?i) = taskChoice (tasks ! p)"
    using label [OF i(1)] label [OF range] i(2) by simp
  have before: "\<forall>j < ?i. taskChoice (tasks ! j) \<noteq> taskChoice (tasks ! p)"
  proof (intro allI impI)
    fix j assume j: "j < ?i"
    with i(1) have "j < length tasks" by simp
    from label [OF this] label [OF range] first [OF j]
    show "taskChoice (tasks ! j) \<noteq> taskChoice (tasks ! p)" by simp
  qed
  have exact: "(\<forall>j < p. taskChoice (tasks ! j) \<noteq> taskChoice (tasks ! p)) \<longrightarrow> ?i = p"
  proof
    assume fresh: "\<forall>j < p. taskChoice (tasks ! j) \<noteq> taskChoice (tasks ! p)"
    show "?i = p"
    proof (rule ccontr)
      assume "?i \<noteq> p"
      with le have "?i < p" by simp
      with fresh same show False by blast
    qed
  qed
  have sel: "selectTask env tasks w = (Inr (tasks ! ?i), ?w')"
    using askTasks_apply [OF pick, of tasks w] range len at_indexOf [OF mem, of tasks] len
    by (simp add: selectTask_def andThen_def resolve_def)
  then have "andThen (selectTask env tasks) (launchSelected env cluster) w =
      launchSelected env cluster (tasks ! ?i) ?w'"
    by (simp add: andThen_def)
  with le same before exact sel show ?thesis by blast
qed

theorem selectTask_first_match_witness:
  "pickTask twinEnv = Inr 1 \<and> (1::nat) < length twinTasks \<and>
   (\<exists>i \<le> 1. taskChoice (twinTasks ! i) = taskChoice (twinTasks ! 1) \<and>
      selectTask twinEnv twinTasks ambientWorld =
        (Inr (twinTasks ! i),
         ambientWorld\<lparr>trace := trace ambientWorld @ [Prompted ''task'' (taskChoices twinTasks)]\<rparr>))"
proof -
  have h1: "pickTask twinEnv = Inr 1" by (simp add: twinEnv_def)
  have h2: "(1::nat) < length twinTasks" by (simp add: twinTasks_def)
  have h3: "\<forall>t \<in> set twinTasks. \<exists>a. taskDefinitionArn t = Some a \<and> a \<noteq> []"
    by (simp add: twinTasks_def appTask_def appContainers_def)
  from selectTask_first_match [OF h1 h2 h3, of ambientWorld "''prod''"]
  have "\<exists>i \<le> 1. taskChoice (twinTasks ! i) = taskChoice (twinTasks ! 1) \<and>
      selectTask twinEnv twinTasks ambientWorld =
        (Inr (twinTasks ! i),
         ambientWorld\<lparr>trace := trace ambientWorld @ [Prompted ''task'' (taskChoices twinTasks)]\<rparr>)"
    by blast
  with h1 h2 show ?thesis by simp
qed

text \<open>
  Two tasks with the same task definition and launch type render the same display
  string; picking the second one selects, and launches into, the first.
\<close>

theorem selectTask_twin_labels_pick_first:
  "pickTask twinEnv = Inr 1 \<and>
   taskChoices twinTasks = [''web:3 - (FARGATE)'', ''web:3 - (FARGATE)''] \<and>
   fst (selectTask twinEnv twinTasks ambientWorld) = Inr (twinTasks ! 0) \<and>
   fst (selectTask twinEnv twinTasks ambientWorld) \<noteq> Inr (twinTasks ! 1) \<and>
   last (trace (snd (run twinEnv ambientWorld))) =
     Spawned ''aws''
       (execArgs ''arn:aws:ecs:us-east-1:123456789012:cluster/prod''
          ''arn:aws:ecs:us-east-1:123456789012:task/prod/1111'' (Some ''container'') ''/bin/sh'')
       ''AKIAAMBIENT'' ''ambient-secret''"
  by (simp add: io_defs step_defs twinEnv_def twinTasks_def demoEnv_def appTask_def appContainers_def
      ambientWorld_def Let_def)

text \<open>
  A task without a task-definition reference has no entry among the choices, so the
  positions of the choices and of the tasks differ after it: picking the only choice,
  rendered from the second task, selects the first task.
\<close>

lemma selectTask_missing_reference_example:
  "taskChoices driftTasks = [''web:3 - (FARGATE)''] \<and>
   taskChoice (driftTasks ! 1) = Some ''web:3 - (FARGATE)'' \<and>
   fst (selectTask demoEnv driftTasks ambientWorld) = Inr (driftTasks ! 0)"
  by (simp add: io_defs step_defs driftTasks_def demoEnv_def appTask_def appContainers_def ambientWorld_def Let_def)

subsection \<open>Container resolution\<close>

text \<open>
  \<^verbatim>\<open>run\<close> prompts for the container exactly when there are two or more eligible
  containers; with one it takes that one, with none it takes \<^verbatim>\<open>containers[0]\<close>, which
  is \<^verbatim>\<open>undefined\<close>, and raises nothing.
\<close>

lemma resolveContainer_by_count:
  "resolveContainer env t w =
     (case findExecuteCommandContainer t of
        [] \<Rightarrow> (Inr None, w)
      | [c] \<Rightarrow> (Inr (Some c), w)
      | c # d # cs \<Rightarrow>
          (case pickContainer env of
             Inl e \<Rightarrow> Inl e
           | Inr p \<Rightarrow> if p < length (c # d # cs) then Inr (Some ((c # d # cs) ! p))
                      else Inl (Error ''prompt closed without an answer''),
           w\<lparr>trace := trace w @ [Prompted ''container'' (c # d # cs)]\<rparr>))"
  by (auto simp: resolveContainer_def askContainers_def searchList_apply andThen_def resolve_def
      at_def Let_def split: list.splits sum.splits)

text \<open>
  C2: a selected task without an eligible container. No error is raised and no prompt
  is shown: the run goes on to the shell prompt and launches \<^verbatim>\<open>aws ecs execute-command\<close>
  with \<^verbatim>\<open>undefined\<close> after \<^verbatim>\<open>--container\<close>.
\<close>

theorem run_no_eligible_container_launches:
  "findExecuteCommandContainer noAgentTask = [] \<and>
   resolveContainer noAgentEnv noAgentTask ambientWorld = (Inr None, ambientWorld) \<and>
   fst (run noAgentEnv ambientWorld) = None \<and>
   last (trace (snd (run noAgentEnv ambientWorld))) =
     Spawned ''aws''
       (execArgs ''arn:aws:ecs:us-east-1:123456789012:cluster/prod''
          ''arn:aws:ecs:us-east-1:123456789012:task/prod/1111'' None ''/bin/sh'')
       ''AKIAAMBIENT'' ''ambient-secret''"
  by (simp add: io_defs step_defs noAgentEnv_def noAgentTask_def demoEnv_def appTask_def appContainers_def
      ambientWorld_def Let_def)

text \<open>
  The events of \<^verbatim>\<open>run\<close> from the selected task on: only the last step spawns
  \<^verbatim>\<open>aws\<close>, and with an eligible container the argument after \<^verbatim>\<open>--container\<close> is an
  entry of the eligible names.
\<close>

lemma script_is_not_aws: "folder @ ''/'' @ ''check-ecs-exec.sh'' \<noteq> ''aws''"
proof
  assume "folder @ ''/'' @ ''check-ecs-exec.sh'' = ''aws''"
  then have "length (folder @ ''/'' @ ''check-ecs-exec.sh'') = length ''aws''" by simp
  then show False by simp
qed

lemma testConfig_no_aws_launch:
  "\<exists>evs. trace (snd (testConfig env cluster arn w)) = trace w @ evs \<and> filter isAwsLaunch evs = []"
  using script_is_not_aws [of "tempfileResp env"]
  by (auto simp: testConfig_def download_def chmodSync_def cleanup_def rmdirSync_def
      spawnAwsScript_def io_defs isAwsLaunch_def Let_def
      split: option.splits sum.splits prod.splits)

lemma resolveContainer_eligible:
  assumes ne: "findExecuteCommandContainer t \<noteq> []"
  shows "\<exists>evs. trace (snd (resolveContainer env t w)) = trace w @ evs \<and>
           filter isAwsLaunch evs = [] \<and>
           (\<forall>cn. fst (resolveContainer env t w) = Inr cn \<longrightarrow>
               (\<exists>n. cn = Some n \<and> n \<in> set (findExecuteCommandContainer t)))"
proof (cases "findExecuteCommandContainer t")
  case Nil
  with ne show ?thesis by simp
next
  case (Cons c cs)
  show ?thesis
  proof (cases cs)
    case Nil
    with Cons show ?thesis by (simp add: resolveContainer_by_count)
  next
    case (Cons d ds)
    let ?xs = "findExecuteCommandContainer t"
    have xs: "?xs = c # d # ds" using \<open>?xs = c # cs\<close> Cons by simp
    have gt: "length ?xs > 1" using xs by simp
    have res: "resolveContainer env t w =
        (case pickContainer env of
           Inl e \<Rightarrow> Inl e
         | Inr p \<Rightarrow> if p < length ?xs then Inr (Some (?xs ! p))
                    else Inl (Error ''prompt closed without an answer''),
         w\<lparr>trace := trace w @ [Prompted ''container'' ?xs]\<rparr>)"
      using gt by (simp add: resolveContainer_def askContainers_def searchList_apply andThen_def
          resolve_def Let_def split: sum.splits)
    have tr: "trace (snd (resolveContainer env t w)) = trace w @ [Prompted ''container'' ?xs]"
      by (simp add: res)
    have quiet: "filter isAwsLaunch [Prompted ''container'' ?xs] = []"
      by (simp add: isAwsLaunch_def)
    have picked: "\<forall>cn. fst (resolveContainer env t w) = Inr cn \<longrightarrow>
               (\<exists>n. cn = Some n \<and> n \<in> set ?xs)"
      unfolding res by (auto split: sum.splits if_splits intro: nth_mem)
    from tr quiet picked show ?thesis by blast
  qed
qed

lemma final_launch_events:
  "\<exists>evs. trace (snd (andThen (askShell env) (\<lambda>shell.
              spawnAwsScript env ''aws'' (execArgs cluster arn cName shell)) w)) = trace w @ evs \<and>
     (\<forall>args k s. Spawned ''aws'' args k s \<in> set evs \<longrightarrow>
        (\<exists>shell. args =
           [Some ''ecs'', Some ''execute-command'', Some ''--cluster'', Some cluster,
            Some ''--task'', Some arn, Some ''--container'', cName,
            Some ''--interactive'', Some ''--command'', Some shell]))"
  by (auto simp: askShell_def searchList_apply spawnAwsScript_def io_defs execArgs_def
      split: sum.splits option.splits)

lemma not_aws_launch: "filter isAwsLaunch evs = [] \<Longrightarrow> Spawned ''aws'' args k s \<notin> set evs"
  by (auto simp: filter_empty_conv isAwsLaunch_def)

lemma launchSelected_container_argument:
  assumes ne: "findExecuteCommandContainer t \<noteq> []"
  shows "\<exists>evs. trace (snd (launchSelected env cluster t w)) = trace w @ evs \<and>
     (\<forall>args k s. Spawned ''aws'' args k s \<in> set evs \<longrightarrow>
        (\<exists>arn n shell. n \<in> set (findExecuteCommandContainer t) \<and> n \<noteq> [] \<and> args =
           [Some ''ecs'', Some ''execute-command'', Some ''--cluster'', Some cluster,
            Some ''--task'', Some arn, Some ''--container'', Some n,
            Some ''--interactive'', Some ''--command'', Some shell]))"
proof (cases "\<exists>arn. taskArn t = Some arn \<and> arn \<noteq> []")
  case False
  then have "launchSelected env cluster t w = (Inl (Error ''Selected task has no ARN''), w)"
    by (auto simp: launchSelected_def reject_def split: option.splits)
  then show ?thesis by simp
next
  case True
  then obtain arn where arn: "taskArn t = Some arn" "arn \<noteq> []" by blast
  let ?test = "if (case argv_test env of None \<Rightarrow> True | Some b \<Rightarrow> b)
                     then andThen (testConfig env cluster arn) (\<lambda>_. resolve ())
                     else resolve ()"
  let ?tail = "\<lambda>cName. andThen (askShell env) (\<lambda>shell.
              spawnAwsScript env ''aws'' (execArgs cluster arn cName shell))"
  have unfold: "launchSelected env cluster t =
      andThen ?test (\<lambda>_. andThen (resolveContainer env t) ?tail)"
    using arn by (simp add: launchSelected_def)
  obtain r1 w1 where t1: "?test w = (r1, w1)" by (cases "?test w")
  have "\<exists>evs. trace (snd (?test w)) = trace w @ evs \<and> filter isAwsLaunch evs = []"
    using testConfig_no_aws_launch [of env cluster arn w]
    by (auto simp: andThen_def resolve_def split: prod.splits sum.splits)
  with t1 obtain evs1 where e1: "trace w1 = trace w @ evs1" "filter isAwsLaunch evs1 = []"
    by auto
  show ?thesis
  proof (cases r1)
    case (Inl e)
    with t1 have "launchSelected env cluster t w = (Inl e, w1)"
      by (simp add: unfold andThen_def)
    with e1 not_aws_launch [OF e1(2)] show ?thesis by auto
  next
    case (Inr u)
    obtain r2 w2 where t2: "resolveContainer env t w1 = (r2, w2)"
      by (cases "resolveContainer env t w1")
    from resolveContainer_eligible [OF ne, of env w1] t2
    obtain evs2 where e2: "trace w2 = trace w1 @ evs2" "filter isAwsLaunch evs2 = []"
      and some: "\<And>cn. r2 = Inr cn \<Longrightarrow> \<exists>n. cn = Some n \<and> n \<in> set (findExecuteCommandContainer t)"
      by auto
    show ?thesis
    proof (cases r2)
      case (Inl e)
      with t1 t2 Inr have "launchSelected env cluster t w = (Inl e, w2)"
        by (simp add: unfold andThen_def)
      moreover have "trace w2 = trace w @ (evs1 @ evs2)" using e1 e2 by simp
      moreover have "filter isAwsLaunch (evs1 @ evs2) = []" using e1 e2 by simp
      ultimately show ?thesis using not_aws_launch by (metis snd_conv)
    next
      case (Inr cn)
      from some [OF this] obtain n where n: "cn = Some n" "n \<in> set (findExecuteCommandContainer t)"
        by blast
      have nn: "n \<noteq> []"
        using n(2) by (auto simp: findExecuteCommandContainer_def containerName_nonempty split: option.splits)
      from final_launch_events [of env cluster arn "Some n" w2]
      obtain evs3 where e3: "trace (snd (?tail (Some n) w2)) = trace w2 @ evs3"
        and form: "\<And>args k s. Spawned ''aws'' args k s \<in> set evs3 \<Longrightarrow>
          \<exists>shell. args = [Some ''ecs'', Some ''execute-command'', Some ''--cluster'', Some cluster,
            Some ''--task'', Some arn, Some ''--container'', Some n,
            Some ''--interactive'', Some ''--command'', Some shell]"
        by blast
      have whole: "launchSelected env cluster t w = ?tail (Some n) w2"
        using t1 t2 \<open>r1 = Inr u\<close> Inr n(1) by (simp add: unfold andThen_def)
      have tr: "trace (snd (launchSelected env cluster t w)) = trace w @ (evs1 @ evs2 @ evs3)"
        using whole e1 e2 e3 by simp
      have "\<forall>args k s. Spawned ''aws'' args k s \<in> set (evs1 @ evs2 @ evs3) \<longrightarrow>
        (\<exists>arn n shell. n \<in> set (findExecuteCommandContainer t) \<and> n \<noteq> [] \<and> args =
           [Some ''ecs'', Some ''execute-command'', Some ''--cluster'', Some cluster,
            Some ''--task'', Some arn, Some ''--container'', Some n,
            Some ''--interactive'', Some ''--command'', Some shell])"
      proof (intro allI impI)
        fix args k s
        assume "Spawned ''aws'' args k s \<in> set (evs1 @ evs2 @ evs3)"
        then have "Spawned ''aws'' args k s \<in> set evs3"
          using not_aws_launch [OF e1(2)] not_aws_launch [OF e2(2)] by auto
        from form [OF this] n(2) nn
        show "\<exists>arn n shell. n \<in> set (findExecuteCommandContainer t) \<and> n \<noteq> [] \<and> args =
           [Some ''ecs'', Some ''execute-command'', Some ''--cluster'', Some cluster,
            Some ''--task'', Some arn, Some ''--container'', Some n,
            Some ''--interactive'', Some ''--command'', Some shell]"
          by blast
      qed
      with tr show ?thesis by blast
    qed
  qed
qed

text \<open>
  C10 (amended): the entry of an eligible container whose name is absent (or empty) is
  the literal "container" and any other entry is the container's own name, so no entry
  of the choice list is absent or empty; and whenever the selected task has at least one
  eligible container, every launch of \<^verbatim>\<open>aws\<close> by \<^verbatim>\<open>run\<close> for that task has, right
  after \<^verbatim>\<open>--container\<close>, a defined non-empty name taken from that list.
\<close>

theorem absent_name_becomes_container:
  "(containers t = Some cs \<longrightarrow>
      (\<forall>i < length (filter hasExecuteCommandAgent cs).
          findExecuteCommandContainer t ! i =
            (case name (filter hasExecuteCommandAgent cs ! i) of
               None \<Rightarrow> ''container''
             | Some n \<Rightarrow> if n = [] then ''container'' else n))) \<and>
   (\<forall>n \<in> set (findExecuteCommandContainer t). n \<noteq> []) \<and>
   (findExecuteCommandContainer t \<noteq> [] \<longrightarrow> resolveContainer env t w = (Inr cn, w') \<longrightarrow>
      (\<exists>n. cn = Some n \<and> n \<in> set (findExecuteCommandContainer t))) \<and>
   (findExecuteCommandContainer t \<noteq> [] \<longrightarrow>
      (\<exists>evs. trace (snd (launchSelected env cluster t w)) = trace w @ evs \<and>
         (\<forall>args k s. Spawned ''aws'' args k s \<in> set evs \<longrightarrow>
            (\<exists>arn n shell. n \<in> set (findExecuteCommandContainer t) \<and> n \<noteq> [] \<and> args =
               [Some ''ecs'', Some ''execute-command'', Some ''--cluster'', Some cluster,
                Some ''--task'', Some arn, Some ''--container'', Some n,
                Some ''--interactive'', Some ''--command'', Some shell]))))"
proof (intro conjI impI allI)
  fix i
  assume "containers t = Some cs" and "i < length (filter hasExecuteCommandAgent cs)"
  then show "findExecuteCommandContainer t ! i =
            (case name (filter hasExecuteCommandAgent cs ! i) of
               None \<Rightarrow> ''container''
             | Some n \<Rightarrow> if n = [] then ''container'' else n)"
    by (simp add: findExecuteCommandContainer_def containerName_def)
next
  show "\<forall>n \<in> set (findExecuteCommandContainer t). n \<noteq> []"
    by (auto simp: findExecuteCommandContainer_def containerName_nonempty split: option.splits)
next
  assume ne: "findExecuteCommandContainer t \<noteq> []"
    and res: "resolveContainer env t w = (Inr cn, w')"
  from resolveContainer_eligible [OF ne, of env w] res
  show "\<exists>n. cn = Some n \<and> n \<in> set (findExecuteCommandContainer t)"
    by auto
next
  assume ne: "findExecuteCommandContainer t \<noteq> []"
  from launchSelected_container_argument [OF ne]
  show "\<exists>evs. trace (snd (launchSelected env cluster t w)) = trace w @ evs \<and>
         (\<forall>args k s. Spawned ''aws'' args k s \<in> set evs \<longrightarrow>
            (\<exists>arn n shell. n \<in> set (findExecuteCommandContainer t) \<and> n \<noteq> [] \<and> args =
               [Some ''ecs'', Some ''execute-command'', Some ''--cluster'', Some cluster,
                Some ''--task'', Some arn, Some ''--container'', Some n,
                Some ''--interactive'', Some ''--command'', Some shell]))" .
qed

theorem absent_name_becomes_container_witness:
  "containers appTask = Some appContainers \<and>
   (1::nat) < length (filter hasExecuteCommandAgent appContainers) \<and>
   name (filter hasExecuteCommandAgent appContainers ! 1) = None \<and>
   findExecuteCommandContainer appTask ! 1 = ''container'' \<and>
   ''container'' \<in> set (findExecuteCommandContainer appTask) \<and>
   findExecuteCommandContainer appTask \<noteq> [] \<and>
   fst (resolveContainer demoEnv appTask ambientWorld) = Inr (Some ''container'') \<and>
   last (trace (snd (launchSelected demoEnv ''prod'' appTask ambientWorld))) =
     Spawned ''aws''
       [Some ''ecs'', Some ''execute-command'', Some ''--cluster'', Some ''prod'',
        Some ''--task'', Some ''arn:aws:ecs:us-east-1:123456789012:task/prod/1111'',
        Some ''--container'', Some ''container'',
        Some ''--interactive'', Some ''--command'', Some (CHR 0x22 # ''/bin/sh'' @ [CHR 0x22])]
       ''AKIAAMBIENT'' ''ambient-secret'' \<and>
   (\<exists>n. n \<in> set (findExecuteCommandContainer appTask) \<and> n \<noteq> [] \<and>
        Some ''container'' = Some n)"
proof -
  let ?w = "ambientWorld\<lparr>trace := trace ambientWorld @ [Prompted ''container'' [''app'', ''container'']]\<rparr>"
  let ?launch = "Spawned ''aws''
       [Some ''ecs'', Some ''execute-command'', Some ''--cluster'', Some ''prod'',
        Some ''--task'', Some ''arn:aws:ecs:us-east-1:123456789012:task/prod/1111'',
        Some ''--container'', Some ''container'',
        Some ''--interactive'', Some ''--command'', Some (CHR 0x22 # ''/bin/sh'' @ [CHR 0x22])]
       ''AKIAAMBIENT'' ''ambient-secret''"
  have ev: "findExecuteCommandContainer appTask = [''app'', ''container'']"
    using findExecuteCommandContainer_example by simp
  have flt: "filter hasExecuteCommandAgent appContainers =
      [\<lparr>name = Some ''app'', managedAgents = Some [\<lparr>agentName = Some ''ExecuteCommandAgent''\<rparr>]\<rparr>,
       \<lparr>name = None, managedAgents = Some [\<lparr>agentName = None\<rparr>, \<lparr>agentName = Some ''ExecuteCommandAgent''\<rparr>]\<rparr>]"
    by (simp add: appContainers_def hasExecuteCommandAgent_def isExecuteCommandAgent_def)
  have cs: "containers appTask = Some appContainers"
    by (simp add: appTask_def)
  have res: "resolveContainer demoEnv appTask ambientWorld = (Inr (Some ''container''), ?w)"
    by (simp add: resolveContainer_def ev askContainers_def searchList_apply andThen_def
        resolve_def demoEnv_def)
  have tr: "trace ambientWorld = []" by (simp add: ambientWorld_def)
  have final: "last (trace (snd (launchSelected demoEnv ''prod'' appTask ambientWorld))) = ?launch"
    by (simp add: io_defs step_defs demoEnv_def appTask_def appContainers_def ambientWorld_def Let_def)
  have nonempty: "trace (snd (launchSelected demoEnv ''prod'' appTask ambientWorld)) \<noteq> []"
    by (simp add: io_defs step_defs demoEnv_def appTask_def appContainers_def ambientWorld_def Let_def)
  note inst = absent_name_becomes_container
    [of appTask appContainers demoEnv ambientWorld "Some ''container''" ?w "''prod''"]
  from inst cs flt have entry: "findExecuteCommandContainer appTask ! 1 = ''container''"
    by simp
  from inst ev res have mem: "''container'' \<in> set (findExecuteCommandContainer appTask)"
    by auto
  have ne: "findExecuteCommandContainer appTask \<noteq> []" using ev by simp
  note launch = inst [THEN conjunct2, THEN conjunct2, THEN conjunct2, rule_format, OF ne]
  from launch obtain evs
    where evs: "trace (snd (launchSelected demoEnv ''prod'' appTask ambientWorld)) = trace ambientWorld @ evs"
    and form: "\<forall>args k s. Spawned ''aws'' args k s \<in> set evs \<longrightarrow>
      (\<exists>arn n shell. n \<in> set (findExecuteCommandContainer appTask) \<and> n \<noteq> [] \<and> args =
               [Some ''ecs'', Some ''execute-command'', Some ''--cluster'', Some ''prod'',
                Some ''--task'', Some arn, Some ''--container'', Some n,
                Some ''--interactive'', Some ''--command'', Some shell])"
    by blast
  have whole: "trace (snd (launchSelected demoEnv ''prod'' appTask ambientWorld)) = evs"
    using evs tr by simp
  have "last evs \<in> set evs"
    using nonempty whole by (simp add: last_in_set)
  then have "?launch \<in> set evs"
    using final whole by simp
  with form obtain arn n shell where n: "n \<in> set (findExecuteCommandContainer appTask)" "n \<noteq> []"
    and args: "[Some ''ecs'', Some ''execute-command'', Some ''--cluster'', Some ''prod'',
        Some ''--task'', Some ''arn:aws:ecs:us-east-1:123456789012:task/prod/1111'',
        Some ''--container'', Some ''container'',
        Some ''--interactive'', Some ''--command'', Some (CHR 0x22 # ''/bin/sh'' @ [CHR 0x22])] =
               [Some ''ecs'', Some ''execute-command'', Some ''--cluster'', Some ''prod'',
                Some ''--task'', Some arn, Some ''--container'', Some n,
                Some ''--interactive'', Some ''--command'', Some shell]"
    by blast
  from args have "Some ''container'' = Some n" by simp
  with n have named: "\<exists>n. n \<in> set (findExecuteCommandContainer appTask) \<and> n \<noteq> [] \<and>
        Some ''container'' = Some n"
    by blast
  from entry mem cs flt ev res final named show ?thesis by simp
qed

text \<open>
  A task without a containers field has no eligible container: the launch of \<^verbatim>\<open>aws\<close>
  has \<^verbatim>\<open>undefined\<close> after \<^verbatim>\<open>--container\<close>.
\<close>

theorem launch_without_containers_has_absent_name:
  "findExecuteCommandContainer noContainersTask = [] \<and>
   fst (run noContainersEnv ambientWorld) = None \<and>
   last (trace (snd (run noContainersEnv ambientWorld))) =
     Spawned ''aws''
       [Some ''ecs'', Some ''execute-command'', Some ''--cluster'',
        Some ''arn:aws:ecs:us-east-1:123456789012:cluster/prod'',
        Some ''--task'', Some ''arn:aws:ecs:us-east-1:123456789012:task/prod/1111'',
        Some ''--container'', None,
        Some ''--interactive'', Some ''--command'', Some (CHR 0x22 # ''/bin/sh'' @ [CHR 0x22])]
       ''AKIAAMBIENT'' ''ambient-secret''"
  by (simp add: io_defs step_defs noContainersEnv_def noContainersTask_def demoEnv_def
      appTask_def appContainers_def ambientWorld_def Let_def)

subsection \<open>Resource listing\<close>

lemma runBody_no_tasks:
  assumes mfa: "mfaStep env w = (Inr (), w1)"
    and clusters: "listClusters env w1 = (Inr (Some clusterArns), w2)"
    and chosen: "askCluster env clusterArns w2 = (Inr selected, w3)"
    and absent: "fst (listTasks env selected w3) = Inr None"
  shows "runBody env w = (Inl (Error ''No tasks found in cluster''), snd (listTasks env selected w3))"
proof -
  obtain w4 where lt: "listTasks env selected w3 = (Inr None, w4)"
    using absent by (cases "listTasks env selected w3") simp
  show ?thesis
    using mfa clusters chosen lt by (simp add: runBody_def andThen_def reject_def)
qed

text \<open>
  C6 (amended): \<^verbatim>\<open>listTasks\<close> resolves with exactly the described tasks whose
  \<^verbatim>\<open>enableExecuteCommand\<close> is true, in their order (so with the empty list when none is
  described); when the backend returns the task-ARN list or the task list as absent it
  resolves with \<^verbatim>\<open>undefined\<close>, not with an empty list; and a \<^verbatim>\<open>run\<close> that reaches
  \<^verbatim>\<open>listTasks\<close> and gets \<^verbatim>\<open>undefined\<close> from it ends with the error
  "No tasks found in cluster" and returns 1.
\<close>

theorem listTasks_enabled_or_undefined:
  "(listTasksResp env cluster = Inr (Some arns) \<longrightarrow>
    describeTasksResp env cluster arns = Inr (Some ts) \<longrightarrow>
      fst (listTasks env cluster w) =
        Inr (Some (filter (\<lambda>t. enableExecuteCommand t = Some True) ts))) \<and>
   (listTasksResp env cluster = Inr None \<longrightarrow> fst (listTasks env cluster w) = Inr None) \<and>
   (listTasksResp env cluster = Inr (Some arns) \<longrightarrow>
    describeTasksResp env cluster arns = Inr None \<longrightarrow>
      fst (listTasks env cluster w) = Inr None) \<and>
   (mfaStep env w = (Inr (), w1) \<longrightarrow>
    listClusters env w1 = (Inr (Some clusterArns), w2) \<longrightarrow>
    askCluster env clusterArns w2 = (Inr selected, w3) \<longrightarrow>
    fst (listTasks env selected w3) = Inr None \<longrightarrow>
      fst (runBody env w) = Inl (Error ''No tasks found in cluster'') \<and>
      fst (run env w) = Some 1)"
proof -
  have flt: "filter execEnabled ts = filter (\<lambda>t. enableExecuteCommand t = Some True) ts"
    by (rule filter_cong) (simp_all add: execEnabled_def)
  have listing: "(listTasksResp env cluster = Inr (Some arns) \<longrightarrow>
    describeTasksResp env cluster arns = Inr (Some ts) \<longrightarrow>
      fst (listTasks env cluster w) =
        Inr (Some (filter (\<lambda>t. enableExecuteCommand t = Some True) ts))) \<and>
   (listTasksResp env cluster = Inr None \<longrightarrow> fst (listTasks env cluster w) = Inr None) \<and>
   (listTasksResp env cluster = Inr (Some arns) \<longrightarrow>
    describeTasksResp env cluster arns = Inr None \<longrightarrow>
      fst (listTasks env cluster w) = Inr None)"
    by (simp add: listTasks_def io_defs flt)
  have reported: "mfaStep env w = (Inr (), w1) \<longrightarrow>
    listClusters env w1 = (Inr (Some clusterArns), w2) \<longrightarrow>
    askCluster env clusterArns w2 = (Inr selected, w3) \<longrightarrow>
    fst (listTasks env selected w3) = Inr None \<longrightarrow>
      fst (runBody env w) = Inl (Error ''No tasks found in cluster'') \<and>
      fst (run env w) = Some 1"
  proof (intro impI)
    assume a: "mfaStep env w = (Inr (), w1)"
      "listClusters env w1 = (Inr (Some clusterArns), w2)"
      "askCluster env clusterArns w2 = (Inr selected, w3)"
      "fst (listTasks env selected w3) = Inr None"
    from runBody_no_tasks [OF a]
    show "fst (runBody env w) = Inl (Error ''No tasks found in cluster'') \<and> fst (run env w) = Some 1"
      by (simp add: run_def)
  qed
  from listing reported show ?thesis by blast
qed

theorem listTasks_enabled_or_undefined_witness:
  "listTasksResp demoEnv ''prod'' = Inr (Some [''arn:aws:ecs:us-east-1:123456789012:task/prod/1111'']) \<and>
   describeTasksResp (demoEnv\<lparr>describeTasksResp := (\<lambda>c arns. Inr (Some mixedTasks))\<rparr>) ''prod''
     [''arn:aws:ecs:us-east-1:123456789012:task/prod/1111''] = Inr (Some mixedTasks) \<and>
   fst (listTasks (demoEnv\<lparr>describeTasksResp := (\<lambda>c arns. Inr (Some mixedTasks))\<rparr>) ''prod'' ambientWorld) =
     Inr (Some [appTask]) \<and>
   listTasksResp absentTasksEnv ''prod'' = Inr None \<and>
   fst (listTasks absentTasksEnv ''prod'' ambientWorld) = Inr None \<and>
   describeTasksResp absentDescribedEnv ''prod''
     [''arn:aws:ecs:us-east-1:123456789012:task/prod/1111''] = Inr None \<and>
   fst (listTasks absentDescribedEnv ''prod'' ambientWorld) = Inr None \<and>
   fst (mfaStep absentTasksEnv ambientWorld) = Inr () \<and>
   fst (listClusters absentTasksEnv (snd (mfaStep absentTasksEnv ambientWorld))) =
     Inr (Some [''arn:aws:ecs:us-east-1:123456789012:cluster/prod'']) \<and>
   fst (runBody absentTasksEnv ambientWorld) = Inl (Error ''No tasks found in cluster'') \<and>
   fst (run absentTasksEnv ambientWorld) = Some 1 \<and>
   fst (runBody absentDescribedEnv ambientWorld) = Inl (Error ''No tasks found in cluster'') \<and>
   fst (run absentDescribedEnv ambientWorld) = Some 1"
proof -
  let ?env = "demoEnv\<lparr>describeTasksResp := (\<lambda>c arns. Inr (Some mixedTasks))\<rparr>"
  let ?arns = "[''arn:aws:ecs:us-east-1:123456789012:task/prod/1111'']"
  let ?cl = "''arn:aws:ecs:us-east-1:123456789012:cluster/prod''"
  let ?w1 = "ambientWorld\<lparr>trace := [Prompted ''mfaCode'' []]\<rparr>"
  let ?w2 = "ambientWorld\<lparr>trace := [Prompted ''mfaCode'' [], ListClusters]\<rparr>"
  have h1: "listTasksResp ?env ''prod'' = Inr (Some ?arns)" by (simp add: demoEnv_def)
  have h2: "describeTasksResp ?env ''prod'' ?arns = Inr (Some mixedTasks)" by simp
  have h3: "listTasksResp absentTasksEnv ''prod'' = Inr None" by (simp add: absentTasksEnv_def)
  have h4: "listTasksResp absentDescribedEnv ''prod'' = Inr (Some ?arns)"
    by (simp add: absentDescribedEnv_def demoEnv_def)
  have h5: "describeTasksResp absentDescribedEnv ''prod'' ?arns = Inr None"
    by (simp add: absentDescribedEnv_def)
  have f: "filter (\<lambda>t. enableExecuteCommand t = Some True) mixedTasks = [appTask]"
    by (simp add: mixedTasks_def appTask_def appContainers_def)
  from listTasks_enabled_or_undefined [where env = ?env and cluster = "''prod''" and arns = ?arns
      and ts = mixedTasks and w = ambientWorld] h1 h2
  have a: "fst (listTasks ?env ''prod'' ambientWorld) = Inr (Some [appTask])"
    by (simp add: f)
  from listTasks_enabled_or_undefined [where env = absentTasksEnv and cluster = "''prod''"
      and w = ambientWorld] h3
  have b: "fst (listTasks absentTasksEnv ''prod'' ambientWorld) = Inr None"
    by simp
  from listTasks_enabled_or_undefined [where env = absentDescribedEnv and cluster = "''prod''"
      and arns = ?arns and w = ambientWorld] h4 h5
  have c: "fst (listTasks absentDescribedEnv ''prod'' ambientWorld) = Inr None"
    by simp
  have m1: "mfaStep absentTasksEnv ambientWorld = (Inr (), ?w1)"
    by (simp add: io_defs step_defs absentTasksEnv_def demoEnv_def ambientWorld_def)
  have c1: "listClusters absentTasksEnv ?w1 = (Inr (Some [?cl]), ?w2)"
    by (simp add: io_defs step_defs absentTasksEnv_def demoEnv_def ambientWorld_def)
  have k1: "askCluster absentTasksEnv [?cl] ?w2 = (Inr ?cl, ?w2)"
    by (simp add: io_defs step_defs absentTasksEnv_def demoEnv_def ambientWorld_def Let_def)
  have l1: "fst (listTasks absentTasksEnv ?cl ?w2) = Inr None"
    by (simp add: io_defs step_defs absentTasksEnv_def demoEnv_def)
  from listTasks_enabled_or_undefined [where env = absentTasksEnv and w = ambientWorld
      and ?w1.0 = ?w1 and clusterArns = "[?cl]" and ?w2.0 = ?w2 and selected = ?cl and ?w3.0 = ?w2]
    m1 c1 k1 l1
  have d: "fst (runBody absentTasksEnv ambientWorld) = Inl (Error ''No tasks found in cluster'') \<and>
      fst (run absentTasksEnv ambientWorld) = Some 1"
    by blast
  have m2: "mfaStep absentDescribedEnv ambientWorld = (Inr (), ?w1)"
    by (simp add: io_defs step_defs absentDescribedEnv_def demoEnv_def ambientWorld_def)
  have c2: "listClusters absentDescribedEnv ?w1 = (Inr (Some [?cl]), ?w2)"
    by (simp add: io_defs step_defs absentDescribedEnv_def demoEnv_def ambientWorld_def)
  have k2: "askCluster absentDescribedEnv [?cl] ?w2 = (Inr ?cl, ?w2)"
    by (simp add: io_defs step_defs absentDescribedEnv_def demoEnv_def ambientWorld_def Let_def)
  have l2: "fst (listTasks absentDescribedEnv ?cl ?w2) = Inr None"
    by (simp add: io_defs step_defs absentDescribedEnv_def demoEnv_def)
  from listTasks_enabled_or_undefined [where env = absentDescribedEnv and w = ambientWorld
      and ?w1.0 = ?w1 and clusterArns = "[?cl]" and ?w2.0 = ?w2 and selected = ?cl and ?w3.0 = ?w2]
    m2 c2 k2 l2
  have e: "fst (runBody absentDescribedEnv ambientWorld) = Inl (Error ''No tasks found in cluster'') \<and>
      fst (run absentDescribedEnv ambientWorld) = Some 1"
    by blast
  from a b c d e h1 h2 h3 h5 m1 c1 show ?thesis by (simp add: demoEnv_def)
qed

text \<open>
  With an absent task-ARN list \<^verbatim>\<open>listTasks\<close> resolves with \<^verbatim>\<open>undefined\<close>, which
  \<^verbatim>\<open>run\<close> turns into the error "No tasks found in cluster".
\<close>

theorem listTasks_absent_is_undefined:
  "listTasksResp absentTasksEnv ''prod'' = Inr None \<and>
   fst (listTasks absentTasksEnv ''prod'' ambientWorld) = Inr None \<and>
   fst (listTasks absentTasksEnv ''prod'' ambientWorld) \<noteq> Inr (Some []) \<and>
   fst (runBody absentTasksEnv ambientWorld) = Inl (Error ''No tasks found in cluster'') \<and>
   fst (run absentTasksEnv ambientWorld) = Some 1"
  by (simp add: io_defs step_defs absentTasksEnv_def demoEnv_def appTask_def appContainers_def
      ambientWorld_def Let_def)

subsection \<open>Credential refresh\<close>

text \<open>
  C9: with a non-empty device listing, \<^verbatim>\<open>mfaTokens\<close> behaves as if the first device
  were the only one, and a successful refresh has called \<^verbatim>\<open>getSessionToken\<close> with the
  serial number of the first device and installed the credentials of that answer.
\<close>

theorem mfaTokens_first_device:
  assumes devs: "listMFADevicesResp env = Inr (d # ds)"
  shows "mfaTokens env code w = mfaTokens (env\<lparr>listMFADevicesResp := Inr [d]\<rparr>) code w \<and>
         (fst (mfaTokens env code w) = Inr () \<longrightarrow>
            (\<exists>c. getSessionTokenResp env (SerialNumber d) code = Inr (Some c) \<and>
                 snd (mfaTokens env code w) =
                   w\<lparr>credentials := Some \<lparr>accessKeyId = AccessKeyId c, secretAccessKey = SecretAccessKey c\<rparr>,
                     trace := trace w @ [ListMFADevices, GetSessionToken 3600 (SerialNumber d) code]\<rparr>))"
  using devs
  by (auto simp: mfaTokens_def mfaFailed_def setCredentials_def io_defs Let_def
      split: sum.splits option.splits)

theorem mfaTokens_first_device_witness:
  "listMFADevicesResp codeEnv =
     Inr [\<lparr>SerialNumber = ''arn:aws:iam::123456789012:mfa/first''\<rparr>,
          \<lparr>SerialNumber = ''arn:aws:iam::123456789012:mfa/second''\<rparr>] \<and>
   mfaTokens codeEnv ''123456'' ambientWorld =
     mfaTokens (codeEnv\<lparr>listMFADevicesResp := Inr [\<lparr>SerialNumber = ''arn:aws:iam::123456789012:mfa/first''\<rparr>]\<rparr>)
       ''123456'' ambientWorld \<and>
   fst (mfaTokens codeEnv ''123456'' ambientWorld) = Inr () \<and>
   snd (mfaTokens codeEnv ''123456'' ambientWorld) =
     ambientWorld\<lparr>credentials := Some \<lparr>accessKeyId = ''ASIASESSION'', secretAccessKey = ''session-secret''\<rparr>,
       trace := [ListMFADevices, GetSessionToken 3600 ''arn:aws:iam::123456789012:mfa/first'' ''123456'']\<rparr>"
proof -
  have h: "listMFADevicesResp codeEnv =
     Inr [\<lparr>SerialNumber = ''arn:aws:iam::123456789012:mfa/first''\<rparr>,
          \<lparr>SerialNumber = ''arn:aws:iam::123456789012:mfa/second''\<rparr>]"
    by (simp add: codeEnv_def demoEnv_def)
  have ok: "fst (mfaTokens codeEnv ''123456'' ambientWorld) = Inr ()"
    by (simp add: io_defs step_defs codeEnv_def demoEnv_def ambientWorld_def Let_def)
  have tok: "getSessionTokenResp codeEnv ''arn:aws:iam::123456789012:mfa/first'' ''123456'' =
     Inr (Some \<lparr>AccessKeyId = ''ASIASESSION'', SecretAccessKey = ''session-secret''\<rparr>)"
    by (simp add: codeEnv_def demoEnv_def)
  from mfaTokens_first_device [OF h, of "''123456''" ambientWorld] ok tok
  show ?thesis using h by (auto simp: ambientWorld_def)
qed

lemma mfaFree_resolve: "mfaFree (resolve x)"
  by (simp add: mfaFree_def resolve_def)

lemma mfaFree_reject: "mfaFree (reject e)"
  by (simp add: mfaFree_def reject_def)

lemma mfaFree_settle: "mfaFree (settle r)"
  by (simp add: mfaFree_def settle_def)

lemma mfaFree_emit: "\<not> isMfaEvent ev \<Longrightarrow> mfaFree (emit ev)"
  by (simp add: mfaFree_def emit_def)

lemma mfaFree_andThen:
  assumes m: "mfaFree m" and f: "\<And>x. mfaFree (f x)"
  shows "mfaFree (andThen m f)"
  unfolding mfaFree_def
proof (intro allI)
  fix w
  obtain r w1 where mw: "m w = (r, w1)" by (cases "m w")
  from m mw obtain evs1 where c1: "credentials w1 = credentials w"
    and t1: "trace w1 = trace w @ evs1" and n1: "filter isMfaEvent evs1 = []"
    unfolding mfaFree_def by (metis snd_conv)
  show "credentials (snd (andThen m f w)) = credentials w \<and>
        (\<exists>evs. trace (snd (andThen m f w)) = trace w @ evs \<and> filter isMfaEvent evs = [])"
  proof (cases r)
    case (Inl e)
    with mw c1 t1 n1 show ?thesis by (simp add: andThen_def)
  next
    case (Inr x)
    obtain r2 w2 where fw: "f x w1 = (r2, w2)" by (cases "f x w1")
    from f [of x] fw obtain evs2 where c2: "credentials w2 = credentials w1"
      and t2: "trace w2 = trace w1 @ evs2" and n2: "filter isMfaEvent evs2 = []"
      unfolding mfaFree_def by (metis snd_conv)
    have "trace w2 = trace w @ (evs1 @ evs2)" using t1 t2 by simp
    moreover have "filter isMfaEvent (evs1 @ evs2) = []" using n1 n2 by simp
    ultimately show ?thesis using Inr mw fw c1 c2 by (auto simp: andThen_def)
  qed
qed

lemma mfaFree_searchList: "mfaFree (searchList nm choices pick)"
  unfolding searchList_def
  by (auto intro!: mfaFree_andThen mfaFree_emit mfaFree_resolve mfaFree_reject
      simp: isMfaEvent_def split: sum.splits)

lemma mfaFree_spawnAwsScript: "mfaFree (spawnAwsScript env cmd args)"
  unfolding mfaFree_def
  by (auto simp: spawnAwsScript_def io_defs isMfaEvent_def split: option.splits)

lemma mfaFree_testConfig: "mfaFree (testConfig env cluster arn)"
  unfolding mfaFree_def
  by (auto simp: testConfig_def download_def chmodSync_def cleanup_def rmdirSync_def
      spawnAwsScript_def io_defs isMfaEvent_def Let_def
      split: option.splits sum.splits prod.splits)

lemmas mfaFree_intros =
  mfaFree_andThen mfaFree_emit mfaFree_resolve mfaFree_reject mfaFree_settle
  mfaFree_searchList mfaFree_spawnAwsScript mfaFree_testConfig

lemma mfaFree_askMFA: "mfaFree (askMFA env)"
  unfolding askMFA_def by (auto intro!: mfaFree_intros simp: isMfaEvent_def)

lemma mfaFree_listClusters: "mfaFree (listClusters env)"
  unfolding listClusters_def by (auto intro!: mfaFree_intros simp: isMfaEvent_def)

lemma mfaFree_askCluster: "mfaFree (askCluster env clusterArns)"
  unfolding askCluster_def Let_def
  by (auto intro!: mfaFree_intros split: option.splits)

lemma mfaFree_listTasks: "mfaFree (listTasks env cluster)"
  unfolding listTasks_def
  by (auto intro!: mfaFree_intros simp: isMfaEvent_def split: option.splits)

lemma mfaFree_selectTask: "mfaFree (selectTask env tasks)"
  unfolding selectTask_def askTasks_def Let_def
  by (auto intro!: mfaFree_intros split: option.splits)

lemma mfaFree_resolveContainer: "mfaFree (resolveContainer env t)"
  unfolding resolveContainer_def askContainers_def Let_def
  by (auto intro!: mfaFree_intros)

lemma mfaFree_launchSelected: "mfaFree (launchSelected env cluster t)"
  unfolding launchSelected_def askShell_def
  by (auto intro!: mfaFree_intros mfaFree_resolveContainer split: option.splits)

lemma mfaFree_mfaStep:
  "mfaAnswer env = Inr None \<or> mfaAnswer env = Inr (Some '''') \<Longrightarrow> mfaFree (mfaStep env)"
  unfolding mfaStep_def askMFA_def
  by (auto intro!: mfaFree_intros simp: isMfaEvent_def settle_def andThen_def emit_def resolve_def mfaFree_def)

lemma mfaFree_runBody:
  "mfaAnswer env = Inr None \<or> mfaAnswer env = Inr (Some '''') \<Longrightarrow> mfaFree (runBody env)"
  unfolding runBody_def
  by (auto intro!: mfaFree_intros mfaFree_mfaStep mfaFree_listClusters mfaFree_askCluster
      mfaFree_listTasks mfaFree_selectTask mfaFree_launchSelected split: option.splits)

lemma mfaFree_no_mfa_calls:
  "filter isMfaEvent evs = [] \<Longrightarrow>
     ListMFADevices \<notin> set evs \<and> (\<forall>n s c. GetSessionToken n s c \<notin> set evs)"
  by (auto simp: filter_empty_conv isMfaEvent_def)

text \<open>Every call of \<^verbatim>\<open>mfaTokens\<close> begins with \<^verbatim>\<open>listMFADevices\<close>.\<close>

lemma mfaTokens_calls_listMFADevices:
  "\<exists>evs. trace (snd (mfaTokens env code w)) = trace w @ ListMFADevices # evs"
  by (auto simp: mfaTokens_def mfaFailed_def setCredentials_def io_defs Let_def
      split: sum.splits option.splits list.splits)

text \<open>
  C7: when the operator's MFA code is absent or empty, the whole run leaves the
  process-wide credentials as they were and makes neither call of \<^verbatim>\<open>mfaTokens\<close>
  (\<^verbatim>\<open>listMFADevices\<close>, \<^verbatim>\<open>getSessionToken\<close>).
\<close>

theorem run_empty_mfa_code_keeps_credentials:
  assumes empty: "mfaAnswer env = Inr None \<or> mfaAnswer env = Inr (Some '''')"
  shows "credentials (snd (run env w)) = credentials w \<and>
         (\<exists>evs. trace (snd (run env w)) = trace w @ evs \<and>
                ListMFADevices \<notin> set evs \<and> (\<forall>n s c. GetSessionToken n s c \<notin> set evs))"
proof -
  from mfaFree_runBody [OF empty]
  obtain evs where c: "credentials (snd (runBody env w)) = credentials w"
    and t: "trace (snd (runBody env w)) = trace w @ evs" and n: "filter isMfaEvent evs = []"
    unfolding mfaFree_def by blast
  have s: "snd (run env w) = snd (runBody env w)"
    by (simp add: run_def split: prod.splits sum.splits)
  from c t mfaFree_no_mfa_calls [OF n] show ?thesis unfolding s by blast
qed

theorem run_empty_mfa_code_keeps_credentials_witness:
  "mfaAnswer demoEnv = Inr (Some '''') \<and>
   credentials (snd (run demoEnv ambientWorld)) = credentials ambientWorld \<and>
   credentials ambientWorld = Some \<lparr>accessKeyId = ''AKIAAMBIENT'', secretAccessKey = ''ambient-secret''\<rparr> \<and>
   (\<exists>evs. trace (snd (run demoEnv ambientWorld)) = trace ambientWorld @ evs \<and>
          ListMFADevices \<notin> set evs)"
proof -
  have h: "mfaAnswer demoEnv = Inr None \<or> mfaAnswer demoEnv = Inr (Some '''')"
    by (simp add: demoEnv_def)
  from run_empty_mfa_code_keeps_credentials [OF h, of ambientWorld]
  have "credentials (snd (run demoEnv ambientWorld)) = credentials ambientWorld \<and>
    (\<exists>evs. trace (snd (run demoEnv ambientWorld)) = trace ambientWorld @ evs \<and>
          ListMFADevices \<notin> set evs)"
    by blast
  then show ?thesis by (simp add: demoEnv_def ambientWorld_def)
qed

text \<open>With a code the refresh is the first thing after the prompt.\<close>

lemma run_with_mfa_code_example:
  "credentials (snd (run codeEnv ambientWorld)) =
     Some \<lparr>accessKeyId = ''ASIASESSION'', secretAccessKey = ''session-secret''\<rparr> \<and>
   take 3 (trace (snd (run codeEnv ambientWorld))) =
     [Prompted ''mfaCode'' [], ListMFADevices,
      GetSessionToken 3600 ''arn:aws:iam::123456789012:mfa/first'' ''123456'']"
  by (simp add: io_defs step_defs codeEnv_def demoEnv_def appTask_def appContainers_def ambientWorld_def Let_def)

subsection \<open>External validator\<close>

text \<open>
  C8 (amended): when the download resolves and the script exists at
  \<^verbatim>\<open>check-ecs-exec.sh\<close> under the download folder, \<^verbatim>\<open>testConfig\<close> removes the folder
  and all below it as its last action, whether the script then ran or the spawn failed;
  when the download resolves without that file, or rejects, \<^verbatim>\<open>testConfig\<close> propagates
  the error and removes nothing: the file system is as the download left it.
\<close>

theorem testConfig_cleanup:
  "(downloadResp env testUrl (tempfileResp env) (files w) = (None, fs) \<longrightarrow>
    tempfileResp env \<noteq> [] \<longrightarrow>
    tempfileResp env @ ''/check-ecs-exec.sh'' \<in> set fs \<longrightarrow>
      files (snd (testConfig env cluster arn w)) =
        filter (\<lambda>p. \<not> isUnder (tempfileResp env) p) fs \<and>
      (\<forall>p \<in> set (files (snd (testConfig env cluster arn w))). \<not> isUnder (tempfileResp env) p) \<and>
      last (trace (snd (testConfig env cluster arn w))) = Rmdir (tempfileResp env)) \<and>
   (downloadResp env testUrl (tempfileResp env) (files w) = (None, fs) \<longrightarrow>
    tempfileResp env @ ''/check-ecs-exec.sh'' \<notin> set fs \<longrightarrow>
      testConfig env cluster arn w =
        (Inl (Error ''ENOENT: no such file or directory''),
         w\<lparr>files := fs,
           trace := trace w @ [Download testUrl (tempfileResp env),
                               Chmod (tempfileResp env @ ''/check-ecs-exec.sh'') ''755'']\<rparr>)) \<and>
   (downloadResp env testUrl (tempfileResp env) (files w) = (Some e, fs) \<longrightarrow>
      testConfig env cluster arn w =
        (Inl e, w\<lparr>files := fs, trace := trace w @ [Download testUrl (tempfileResp env)]\<rparr>))"
proof (intro conjI impI)
  assume d: "downloadResp env testUrl (tempfileResp env) (files w) = (None, fs)"
    and ne: "tempfileResp env \<noteq> []"
    and ex: "tempfileResp env @ ''/check-ecs-exec.sh'' \<in> set fs"
  have fs: "files (snd (testConfig env cluster arn w)) =
        filter (\<lambda>p. \<not> isUnder (tempfileResp env) p) fs"
    using d ne ex
    by (auto simp: testConfig_def download_def chmodSync_def cleanup_def rmdirSync_def
        spawnAwsScript_def io_defs Let_def split: option.splits sum.splits prod.splits)
  then show "files (snd (testConfig env cluster arn w)) =
        filter (\<lambda>p. \<not> isUnder (tempfileResp env) p) fs" .
  from fs show "\<forall>p \<in> set (files (snd (testConfig env cluster arn w))). \<not> isUnder (tempfileResp env) p"
    by simp
  show "last (trace (snd (testConfig env cluster arn w))) = Rmdir (tempfileResp env)"
    using d ne ex
    by (auto simp: testConfig_def download_def chmodSync_def cleanup_def rmdirSync_def
        spawnAwsScript_def io_defs Let_def split: option.splits sum.splits prod.splits)
next
  assume "downloadResp env testUrl (tempfileResp env) (files w) = (None, fs)"
    and "tempfileResp env @ ''/check-ecs-exec.sh'' \<notin> set fs"
  then show "testConfig env cluster arn w =
        (Inl (Error ''ENOENT: no such file or directory''),
         w\<lparr>files := fs,
           trace := trace w @ [Download testUrl (tempfileResp env),
                               Chmod (tempfileResp env @ ''/check-ecs-exec.sh'') ''755'']\<rparr>)"
    by (simp add: testConfig_def download_def chmodSync_def cleanup_def io_defs Let_def)
next
  assume "downloadResp env testUrl (tempfileResp env) (files w) = (Some e, fs)"
  then show "testConfig env cluster arn w =
        (Inl e, w\<lparr>files := fs, trace := trace w @ [Download testUrl (tempfileResp env)]\<rparr>)"
    by (simp add: testConfig_def download_def cleanup_def Let_def)
qed

theorem testConfig_cleanup_witness:
  "downloadResp demoEnv testUrl (tempfileResp demoEnv) (files ambientWorld) =
     (None, [''/tmp/4f2a'', ''/tmp/4f2a/check-ecs-exec.sh'']) \<and>
   tempfileResp demoEnv = ''/tmp/4f2a'' \<and>
   files (snd (testConfig demoEnv ''prod'' ''arn:aws:ecs:us-east-1:123456789012:task/prod/1111'' ambientWorld)) = [] \<and>
   last (trace (snd (testConfig demoEnv ''prod'' ''arn:aws:ecs:us-east-1:123456789012:task/prod/1111'' ambientWorld))) =
     Rmdir ''/tmp/4f2a'' \<and>
   downloadResp renamedDownloadEnv testUrl (tempfileResp renamedDownloadEnv) (files ambientWorld) =
     (None, [''/tmp/4f2a'', ''/tmp/4f2a/download'']) \<and>
   files (snd (testConfig renamedDownloadEnv ''prod'' ''arn:aws:ecs:us-east-1:123456789012:task/prod/1111'' ambientWorld)) =
     [''/tmp/4f2a'', ''/tmp/4f2a/download''] \<and>
   downloadResp partialDownloadEnv testUrl (tempfileResp partialDownloadEnv) (files ambientWorld) =
     (Some (Error ''ENOSPC: no space left on device''), [''/tmp/4f2a'']) \<and>
   files (snd (testConfig partialDownloadEnv ''prod'' ''arn:aws:ecs:us-east-1:123456789012:task/prod/1111'' ambientWorld)) =
     [''/tmp/4f2a'']"
proof -
  let ?arn = "''arn:aws:ecs:us-east-1:123456789012:task/prod/1111''"
  have d1: "downloadResp demoEnv testUrl (tempfileResp demoEnv) (files ambientWorld) =
     (None, [''/tmp/4f2a'', ''/tmp/4f2a/check-ecs-exec.sh''])"
    by (simp add: demoEnv_def ambientWorld_def)
  have t1: "tempfileResp demoEnv = ''/tmp/4f2a''" by (simp add: demoEnv_def)
  have d2: "downloadResp renamedDownloadEnv testUrl (tempfileResp renamedDownloadEnv) (files ambientWorld) =
     (None, [''/tmp/4f2a'', ''/tmp/4f2a/download''])"
    by (simp add: renamedDownloadEnv_def demoEnv_def ambientWorld_def)
  have d3: "downloadResp partialDownloadEnv testUrl (tempfileResp partialDownloadEnv) (files ambientWorld) =
     (Some (Error ''ENOSPC: no space left on device''), [''/tmp/4f2a''])"
    by (simp add: partialDownloadEnv_def demoEnv_def ambientWorld_def)
  have t2: "tempfileResp renamedDownloadEnv = ''/tmp/4f2a''"
    by (simp add: renamedDownloadEnv_def demoEnv_def)
  from testConfig_cleanup [where env = demoEnv and w = ambientWorld
      and fs = "[''/tmp/4f2a'', ''/tmp/4f2a/check-ecs-exec.sh'']" and cluster = "''prod''"
      and arn = ?arn] d1 t1
  have a: "files (snd (testConfig demoEnv ''prod'' ?arn ambientWorld)) = [] \<and>
      last (trace (snd (testConfig demoEnv ''prod'' ?arn ambientWorld))) = Rmdir ''/tmp/4f2a''"
    by (simp add: isUnder_def)
  from testConfig_cleanup [where env = renamedDownloadEnv and w = ambientWorld
      and fs = "[''/tmp/4f2a'', ''/tmp/4f2a/download'']" and cluster = "''prod''"
      and arn = ?arn] d2 t2
  have b: "files (snd (testConfig renamedDownloadEnv ''prod'' ?arn ambientWorld)) =
      [''/tmp/4f2a'', ''/tmp/4f2a/download'']"
    by simp
  from testConfig_cleanup [where env = partialDownloadEnv and w = ambientWorld
      and fs = "[''/tmp/4f2a'']" and cluster = "''prod''" and arn = ?arn
      and e = "Error ''ENOSPC: no space left on device''"] d3
  have c: "files (snd (testConfig partialDownloadEnv ''prod'' ?arn ambientWorld)) = [''/tmp/4f2a'']"
    by simp
  from a b c d1 d2 d3 t1 show ?thesis by simp
qed

text \<open>
  A download that rejects after it has created the folder: the folder is still there
  when \<^verbatim>\<open>testConfig\<close> propagates the error.
\<close>

theorem testConfig_failed_download_leaves_folder:
  "''/tmp/4f2a'' \<notin> set (files ambientWorld) \<and>
   fst (testConfig partialDownloadEnv ''prod'' ''arn:aws:ecs:us-east-1:123456789012:task/prod/1111'' ambientWorld) =
     Inl (Error ''ENOSPC: no space left on device'') \<and>
   files (snd (testConfig partialDownloadEnv ''prod'' ''arn:aws:ecs:us-east-1:123456789012:task/prod/1111'' ambientWorld)) =
     [''/tmp/4f2a''] \<and>
   trace (snd (testConfig partialDownloadEnv ''prod'' ''arn:aws:ecs:us-east-1:123456789012:task/prod/1111'' ambientWorld)) =
     [Download testUrl ''/tmp/4f2a'']"
  by (simp add: testConfig_def download_def cleanup_def partialDownloadEnv_def demoEnv_def
      ambientWorld_def Let_def)

end
